theory Spec2Isabelle
  imports Main "HOL-Library.Word"
begin

section \<open>Data model of the block explorer index (addblock.go)\<close>

text \<open>
  \<^verbatim>\<open>crypto.Hash\<close> is a 32-byte array; block ids, transaction ids, output ids, contract
  ids and unlock hashes are all converted to it before they are used as keys.
  \<^verbatim>\<open>crypto.Hash{}\<close> is the all-zero array, the word \<open>0\<close>. \<^verbatim>\<open>types.Target\<close> is a
  32-byte array as well; heights, timestamps and sizes are \<^verbatim>\<open>uint64\<close>.
\<close>

type_synonym Hash = "256 word"
type_synonym Target = "256 word"
type_synonym BlockHeight = "64 word"

text \<open>
  The consensus types, with the fields that addblock.go reads.  Go lets several structs
  share the field name \<^verbatim>\<open>ParentID\<close> or \<^verbatim>\<open>UnlockHash\<close>; the fields carry a prefix here.
\<close>

record SiacoinOutput =
  sco_Value :: nat
  sco_UnlockHash :: Hash

record SiafundOutput =
  sfo_Value :: nat
  sfo_UnlockHash :: Hash

record SiacoinInput =
  sci_ParentID :: Hash

record SiafundInput =
  sfi_ParentID :: Hash

record FileContract =
  fc_ValidProofOutputs :: "SiacoinOutput list"
  fc_MissedProofOutputs :: "SiacoinOutput list"
  fc_UnlockHash :: Hash

record FileContractRevision =
  fcr_ParentID :: Hash
  fcr_NewValidProofOutputs :: "SiacoinOutput list"
  fcr_NewMissedProofOutputs :: "SiacoinOutput list"
  fcr_NewUnlockHash :: Hash

record StorageProof =
  sp_ParentID :: Hash

record Transaction =
  SiacoinInputs :: "SiacoinInput list"
  SiacoinOutputs :: "SiacoinOutput list"
  FileContracts :: "FileContract list"
  FileContractRevisions :: "FileContractRevision list"
  StorageProofs :: "StorageProof list"
  SiafundInputs :: "SiafundInput list"
  SiafundOutputs :: "SiafundOutput list"

record Block =
  ParentID :: Hash
  Timestamp :: "64 word"
  MinerPayouts :: "SiacoinOutput list"
  Transactions :: "Transaction list"

text \<open>
  The values stored in the buckets.  The struct declarations \<^verbatim>\<open>outputTransactions\<close>,
  \<^verbatim>\<open>fcInfo\<close>, \<^verbatim>\<open>blockData\<close>, \<^verbatim>\<open>txInfo\<close> and \<^verbatim>\<open>modules.ExplorerBlockData\<close> live in
  other files; their fields are taken from the composite literals and field accesses of
  addblock.go (\<^verbatim>\<open>outputTransactions{txid, crypto.Hash{}}\<close> is positional: creating
  transaction first, spending transaction \<^verbatim>\<open>InputTx\<close> second).
\<close>

record outputTransactions =
  OutputTx :: Hash
  InputTx :: Hash

record fcInfo =
  Contract :: Hash
  Revisions :: "Hash list"
  Proof :: Hash

record blockData =
  bd_Block :: Block
  bd_Height :: BlockHeight

record ExplorerBlockData =
  ebd_ID :: Hash
  ebd_Timestamp :: "64 word"
  ebd_Target :: Target
  ebd_Size :: "64 word"

record txInfo =
  ti_BlockID :: Hash
  ti_TxNum :: int

text \<open>
  Modelled from the spec: the integer constants \<^verbatim>\<open>hashBlock\<close>, \<^verbatim>\<open>hashTransaction\<close>,
  \<^verbatim>\<open>hashFilecontract\<close>, \<^verbatim>\<open>hashCoinOutputID\<close>, \<^verbatim>\<open>hashFundOutputID\<close> and
  \<^verbatim>\<open>hashUnlockHash\<close> are declared outside addblock.go.  The spec gives them as the
  category enum {block, transaction, coin-output, fund-output, contract, address}; only
  their being distinct matters here.
\<close>

datatype hashType =
  hashBlock | hashTransaction | hashFilecontract
  | hashCoinOutputID | hashFundOutputID | hashUnlockHash

text \<open>
  A bolt bucket maps marshalled keys to marshalled values.  Keys are hashes, or a height
  in the bucket Heights.  A stored value is the encoding of one of the Go types above;
  \<^verbatim>\<open>encoding.Unmarshal\<close> into a variable of another type is the decoding error.
\<close>

datatype key = KHash Hash | KHeight BlockHeight

datatype val =
  VHashType hashType
  | VHashes "Hash list"
  | VBlock blockData
  | VSummary ExplorerBlockData
  | VTxInfo txInfo
  | VOutput outputTransactions
  | VContract fcInfo

type_synonym Bucket = "key \<rightharpoonup> val"

text \<open>
  The open transaction \<^verbatim>\<open>*bolt.Tx\<close>: \<^verbatim>\<open>tx.Bucket(name)\<close> is \<open>tx name\<close>, and
  \<^verbatim>\<open>nil\<close> is \<open>None\<close>.
\<close>

type_synonym Tx = "string \<rightharpoonup> Bucket"

datatype error =
  ErrNilEntry
  | ErrorNew string
  | ErrUnmarshal
  | ErrBolt string

text \<open>
  A Go function \<^verbatim>\<open>func f(tx *bolt.Tx, ...) error\<close> mutates the transaction and returns
  \<^verbatim>\<open>nil\<close> or an error.  Its model returns both: the error (\<open>None\<close> is \<^verbatim>\<open>nil\<close>) and the
  transaction as the call leaves it.  The writes made before a failure stay in the
  transaction; only the rollback of the whole transaction discards them.
\<close>

type_synonym result = "error option \<times> Tx"

text \<open>\<^verbatim>\<open>err := f(...); if err != nil { return err }\<close> followed by the rest \<open>g\<close>.\<close>

definition andThen :: "result \<Rightarrow> (Tx \<Rightarrow> result) \<Rightarrow> result" where
  "andThen r g = (case r of (Some err, tx) \<Rightarrow> (Some err, tx) | (None, tx) \<Rightarrow> g tx)"

text \<open>A call whose returned error is dropped: \<^verbatim>\<open>f(...)\<close> as a statement.\<close>

definition ignoreError :: "result \<Rightarrow> (Tx \<Rightarrow> result) \<Rightarrow> result" where
  "ignoreError r g = g (snd r)"

section \<open>Typed get and put\<close>

text \<open>The decoders stand for the type of the pointer handed to \<^verbatim>\<open>getObject\<close>.\<close>

fun asHashes :: "val \<Rightarrow> Hash list option" where
  "asHashes (VHashes xs) = Some xs"
| "asHashes _ = None"

fun asOutput :: "val \<Rightarrow> outputTransactions option" where
  "asOutput (VOutput ot) = Some ot"
| "asOutput _ = None"

fun asContract :: "val \<Rightarrow> fcInfo option" where
  "asContract (VContract fi) = Some fi"
| "asContract _ = None"

text \<open>
  \<^verbatim>\<open>getObject(b, key, obj)\<close>: the returned error, and \<open>obj\<close> after the call (\<open>obj0\<close> is
  its value before).
\<close>

definition getObject :: "Bucket \<Rightarrow> key \<Rightarrow> (val \<Rightarrow> 'a option) \<Rightarrow> 'a \<Rightarrow> error option \<times> 'a" where
  "getObject b k dec obj0 =
     (case b k of
        None \<Rightarrow> (Some ErrNilEntry, obj0)
      | Some objBytes \<Rightarrow>
          (case dec objBytes of
             None \<Rightarrow> (Some ErrUnmarshal, obj0)
           | Some obj \<Rightarrow> (None, obj)))"

text \<open>
  \<^verbatim>\<open>putObject(b, key, val)\<close> on the bucket \<open>b\<close> named \<open>name\<close> of the transaction.
  \<^verbatim>\<open>b.Put\<close> of bolt fails only on a read-only or closed transaction, an empty or
  oversized key, or an oversized value; the transaction here is writable and the keys
  are 32 or 8 bytes, so the put succeeds.
\<close>

definition putObject :: "Tx \<Rightarrow> string \<Rightarrow> Bucket \<Rightarrow> key \<Rightarrow> val \<Rightarrow> result" where
  "putObject tx name b k v = (None, tx(name \<mapsto> b(k \<mapsto> v)))"

section \<open>The index writers\<close>

definition addHashType :: "Tx \<Rightarrow> Hash \<Rightarrow> hashType \<Rightarrow> result" where
  "addHashType tx hash t =
     (case tx ''Hashes'' of
        None \<Rightarrow> (Some (ErrorNew ''bucket Hashes does not exist''), tx)
      | Some b \<Rightarrow> putObject tx ''Hashes'' b (KHash hash) (VHashType t))"

definition addAddress :: "Tx \<Rightarrow> Hash \<Rightarrow> Hash \<Rightarrow> result" where
  "addAddress tx addr txid =
     andThen (addHashType tx addr hashUnlockHash) (\<lambda>tx.
       case tx ''Addresses'' of
         None \<Rightarrow> (Some (ErrorNew ''Addresses bucket does not exist''), tx)
       | Some b \<Rightarrow>
           (case getObject b (KHash addr) asHashes [] of
              (err, txns) \<Rightarrow>
                if err \<noteq> Some ErrNilEntry then (err, tx)
                else putObject tx ''Addresses'' b (KHash addr) (VHashes (txns @ [txid]))))"

definition addSiacoinInput :: "Tx \<Rightarrow> Hash \<Rightarrow> Hash \<Rightarrow> result" where
  "addSiacoinInput tx outputID txid =
     (case tx ''SiacoinOutputs'' of
        None \<Rightarrow> (Some (ErrorNew ''bucket SiacoinOutputs does not exist''), tx)
      | Some b \<Rightarrow>
          (case getObject b (KHash outputID) asOutput \<lparr>OutputTx = 0, InputTx = 0\<rparr> of
             (Some err, ot) \<Rightarrow> (Some err, tx)
           | (None, ot) \<Rightarrow>
               putObject tx ''SiacoinOutputs'' b (KHash outputID) (VOutput (ot\<lparr>InputTx := txid\<rparr>))))"

definition addSiafundInput :: "Tx \<Rightarrow> Hash \<Rightarrow> Hash \<Rightarrow> result" where
  "addSiafundInput tx outputID txid =
     (case tx ''SiafundOutputs'' of
        None \<Rightarrow> (Some (ErrorNew ''bucket SiafundOutputs does not exist''), tx)
      | Some b \<Rightarrow>
          (case getObject b (KHash outputID) asOutput \<lparr>OutputTx = 0, InputTx = 0\<rparr> of
             (Some err, ot) \<Rightarrow> (Some err, tx)
           | (None, ot) \<Rightarrow>
               putObject tx ''SiafundOutputs'' b (KHash outputID) (VOutput (ot\<lparr>InputTx := txid\<rparr>))))"

definition addFcRevision :: "Tx \<Rightarrow> Hash \<Rightarrow> Hash \<Rightarrow> result" where
  "addFcRevision tx fcid txid =
     (case tx ''FileContracts'' of
        None \<Rightarrow> (Some (ErrorNew ''bucket FileContracts does not exist''), tx)
      | Some b \<Rightarrow>
          (case getObject b (KHash fcid) asContract \<lparr>Contract = 0, Revisions = [], Proof = 0\<rparr> of
             (Some err, fi) \<Rightarrow> (Some err, tx)
           | (None, fi) \<Rightarrow>
               putObject tx ''FileContracts'' b (KHash fcid)
                 (VContract (fi\<lparr>Revisions := Revisions fi @ [txid]\<rparr>))))"

definition addFcProof :: "Tx \<Rightarrow> Hash \<Rightarrow> Hash \<Rightarrow> result" where
  "addFcProof tx fcid txid =
     (case tx ''FileContracts'' of
        None \<Rightarrow> (Some (ErrorNew ''bucket FileContracts does not exist''), tx)
      | Some b \<Rightarrow>
          (case getObject b (KHash fcid) asContract \<lparr>Contract = 0, Revisions = [], Proof = 0\<rparr> of
             (Some err, fi) \<Rightarrow> (Some err, tx)
           | (None, fi) \<Rightarrow>
               putObject tx ''FileContracts'' b (KHash fcid) (VContract (fi\<lparr>Proof := txid\<rparr>))))"

definition addNewHash :: "Tx \<Rightarrow> string \<Rightarrow> hashType \<Rightarrow> Hash \<Rightarrow> val \<Rightarrow> result" where
  "addNewHash tx bucketName t hash v =
     andThen (addHashType tx hash t) (\<lambda>tx.
       case tx bucketName of
         None \<Rightarrow> (Some (ErrorNew (''bucket does not exist: '' @ bucketName)), tx)
       | Some b \<Rightarrow> putObject tx bucketName b (KHash hash) v)"

definition addNewOutput :: "Tx \<Rightarrow> Hash \<Rightarrow> Hash \<Rightarrow> result" where
  "addNewOutput tx outputID txid =
     (let otx = \<lparr>OutputTx = txid, InputTx = 0\<rparr>
      in addNewHash tx ''SiacoinOutputs'' hashCoinOutputID outputID (VOutput otx))"

definition addNewSFOutput :: "Tx \<Rightarrow> Hash \<Rightarrow> Hash \<Rightarrow> result" where
  "addNewSFOutput tx outputID txid =
     (let otx = \<lparr>OutputTx = txid, InputTx = 0\<rparr>
      in addNewHash tx ''SiafundOutputs'' hashFundOutputID outputID (VOutput otx))"

definition addHeight :: "Tx \<Rightarrow> BlockHeight \<Rightarrow> ExplorerBlockData \<Rightarrow> result" where
  "addHeight tx height bs =
     (case tx ''Heights'' of
        None \<Rightarrow> (Some (ErrorNew ''bucket Blocks does not exist''), tx)
      | Some b \<Rightarrow> putObject tx ''Heights'' b (KHeight height) (VSummary bs))"

section \<open>Collaborators\<close>

text \<open>
  The identifier functions of package \<^verbatim>\<open>types\<close> (\<^verbatim>\<open>b.ID()\<close>, \<^verbatim>\<open>b.MinerPayoutID(i)\<close>,
  \<^verbatim>\<open>tx.ID()\<close>, \<^verbatim>\<open>tx.SiacoinOutputID(i)\<close>, \<^verbatim>\<open>tx.FileContractID(i)\<close>,
  \<^verbatim>\<open>fcid.StorageProofOutputID(valid, i)\<close>, \<^verbatim>\<open>tx.SiafundOutputID(i)\<close>), the length of
  \<^verbatim>\<open>encoding.Marshal(b)\<close> and the build constants \<^verbatim>\<open>build.DEBUG\<close> and
  \<^verbatim>\<open>build.Release\<close> are declared in other packages.  They are parameters of the model.
\<close>

record Pkg =
  build_DEBUG :: bool
  build_Release :: string
  BlockID :: "Block \<Rightarrow> Hash"
  MinerPayoutID :: "Block \<Rightarrow> nat \<Rightarrow> Hash"
  TransactionID :: "Transaction \<Rightarrow> Hash"
  SiacoinOutputID :: "Transaction \<Rightarrow> nat \<Rightarrow> Hash"
  FileContractID :: "Transaction \<Rightarrow> nat \<Rightarrow> Hash"
  StorageProofOutputID :: "Hash \<Rightarrow> bool \<Rightarrow> nat \<Rightarrow> Hash"
  SiafundOutputID :: "Transaction \<Rightarrow> nat \<Rightarrow> Hash"
  MarshalLen :: "Block \<Rightarrow> nat"

text \<open>
  Modelled from the spec: \<^verbatim>\<open>types.RootDepth\<close> is declared in package \<^verbatim>\<open>types\<close>; the spec
  calls it the maximal (easiest) target, the array of 32 bytes 255.
\<close>

definition RootDepth :: Target where
  "RootDepth = - 1"

text \<open>
  The database \<^verbatim>\<open>be.db\<close>: the committed buckets, and the outcomes of
  \<^verbatim>\<open>db.Begin(true)\<close> and \<^verbatim>\<open>tx.Commit()\<close>, which bolt decides (a closed database, an
  I/O failure).  A failed commit leaves the committed buckets as they were.
\<close>

record DB =
  buckets :: Tx
  beginErr :: "error option"
  commitErr :: "error option"

definition Begin :: "DB \<Rightarrow> error + Tx" where
  "Begin d = (case beginErr d of Some err \<Rightarrow> Inl err | None \<Rightarrow> Inr (buckets d))"

definition Commit :: "DB \<Rightarrow> Tx \<Rightarrow> error option \<times> DB" where
  "Commit d tx = (case commitErr d of Some err \<Rightarrow> (Some err, d) | None \<Rightarrow> (None, d\<lparr>buckets := tx\<rparr>))"

text \<open>\<^verbatim>\<open>tx.Rollback()\<close> on an open transaction discards its writes.\<close>

definition Rollback :: "DB \<Rightarrow> Tx \<Rightarrow> DB" where
  "Rollback d tx = d"

record BlockExplorer =
  genesisBlockID :: Hash
  blockchainHeight :: BlockHeight
  cs_ChildTarget :: "Hash \<Rightarrow> Target \<times> bool"
  db :: DB

text \<open>A call either returns or panics.\<close>

datatype 'a exit = Return 'a | Panic string

section \<open>addTransaction\<close>

text \<open>
  The loop
  \<^verbatim>\<open>for i, output := range outs { addAddress(tx, output.UnlockHash, txid); addNewOutput(tx, idOf(i), txid) }\<close>
  with both errors checked.  It occurs six times: over the miner payouts (lines 231-240),
  the coin outputs (272-281), the valid and missed proof outputs of a contract (293-312)
  and of a revision (330-349); \<open>idOf\<close> is the identifier function of the occurrence and
  \<open>i\<close> the running index.
\<close>

fun addOutputs :: "(nat \<Rightarrow> Hash) \<Rightarrow> Hash \<Rightarrow> nat \<Rightarrow> SiacoinOutput list \<Rightarrow> Tx \<Rightarrow> result" where
  "addOutputs idOf txid i [] tx = (None, tx)"
| "addOutputs idOf txid i (output # rest) tx =
     andThen (addAddress tx (sco_UnlockHash output) txid) (\<lambda>tx.
     andThen (addNewOutput tx (idOf i) txid) (\<lambda>tx.
     addOutputs idOf txid (Suc i) rest tx))"

text \<open>Lines 264-269.\<close>

fun addSiacoinInputs :: "Hash \<Rightarrow> SiacoinInput list \<Rightarrow> Tx \<Rightarrow> result" where
  "addSiacoinInputs txid [] tx = (None, tx)"
| "addSiacoinInputs txid (input # rest) tx =
     andThen (addSiacoinInput tx (sci_ParentID input) txid) (\<lambda>tx.
     addSiacoinInputs txid rest tx)"

text \<open>Lines 284-318.\<close>

fun addFileContracts :: "Pkg \<Rightarrow> Transaction \<Rightarrow> Hash \<Rightarrow> nat \<Rightarrow> FileContract list \<Rightarrow> Tx \<Rightarrow> result" where
  "addFileContracts P t txid i [] tx = (None, tx)"
| "addFileContracts P t txid i (contract # rest) tx =
     (let fcid = FileContractID P t i in
      andThen (addNewHash tx ''FileContracts'' hashFilecontract fcid
                 (VContract \<lparr>Contract = txid, Revisions = [], Proof = 0\<rparr>)) (\<lambda>tx.
      andThen (addOutputs (StorageProofOutputID P fcid True) txid 0
                 (fc_ValidProofOutputs contract) tx) (\<lambda>tx.
      andThen (addOutputs (StorageProofOutputID P fcid False) txid 0
                 (fc_MissedProofOutputs contract) tx) (\<lambda>tx.
      andThen (addAddress tx (fc_UnlockHash contract) txid) (\<lambda>tx.
      addFileContracts P t txid (Suc i) rest tx)))))"

text \<open>Lines 321-352.  The error of the last \<^verbatim>\<open>addAddress\<close> (line 351) is not looked at.\<close>

fun addRevisions :: "Pkg \<Rightarrow> Hash \<Rightarrow> FileContractRevision list \<Rightarrow> Tx \<Rightarrow> result" where
  "addRevisions P txid [] tx = (None, tx)"
| "addRevisions P txid (revision # rest) tx =
     andThen (addFcRevision tx (fcr_ParentID revision) txid) (\<lambda>tx.
     andThen (addOutputs (StorageProofOutputID P (fcr_ParentID revision) True) txid 0
                (fcr_NewValidProofOutputs revision) tx) (\<lambda>tx.
     andThen (addOutputs (StorageProofOutputID P (fcr_ParentID revision) False) txid 0
                (fcr_NewMissedProofOutputs revision) tx) (\<lambda>tx.
     ignoreError (addAddress tx (fcr_NewUnlockHash revision) txid) (\<lambda>tx.
     addRevisions P txid rest tx))))"

text \<open>Lines 355-360.\<close>

fun addStorageProofs :: "Hash \<Rightarrow> StorageProof list \<Rightarrow> Tx \<Rightarrow> result" where
  "addStorageProofs txid [] tx = (None, tx)"
| "addStorageProofs txid (proof # rest) tx =
     andThen (addFcProof tx (sp_ParentID proof) txid) (\<lambda>tx.
     addStorageProofs txid rest tx)"

text \<open>Lines 363-368.\<close>

fun addSiafundInputs :: "Hash \<Rightarrow> SiafundInput list \<Rightarrow> Tx \<Rightarrow> result" where
  "addSiafundInputs txid [] tx = (None, tx)"
| "addSiafundInputs txid (input # rest) tx =
     andThen (addSiafundInput tx (sfi_ParentID input) txid) (\<lambda>tx.
     addSiafundInputs txid rest tx)"

text \<open>Lines 371-381.\<close>

fun addSiafundOutputs :: "Pkg \<Rightarrow> Transaction \<Rightarrow> Hash \<Rightarrow> nat \<Rightarrow> SiafundOutput list \<Rightarrow> Tx \<Rightarrow> result" where
  "addSiafundOutputs P t txid i [] tx = (None, tx)"
| "addSiafundOutputs P t txid i (output # rest) tx =
     andThen (addAddress tx (sfo_UnlockHash output) txid) (\<lambda>tx.
     andThen (addNewSFOutput tx (SiafundOutputID P t i) txid) (\<lambda>tx.
     addSiafundOutputs P t txid (Suc i) rest tx))"

text \<open>
  \<^verbatim>\<open>addTransaction\<close>, lines 259-383, in two parts: the coin side (coin inputs and
  outputs, contracts, revisions and storage proofs, lines 264-360) and then the fund
  side and the final hash tag (lines 363-383).
\<close>

definition addTransactionCoin :: "Pkg \<Rightarrow> Tx \<Rightarrow> Transaction \<Rightarrow> result" where
  "addTransactionCoin P btx t =
     (let txid = TransactionID P t in
      andThen (addSiacoinInputs txid (SiacoinInputs t) btx) (\<lambda>btx.
      andThen (addOutputs (SiacoinOutputID P t) txid 0 (SiacoinOutputs t) btx) (\<lambda>btx.
      andThen (addFileContracts P t txid 0 (FileContracts t) btx) (\<lambda>btx.
      andThen (addRevisions P txid (FileContractRevisions t) btx) (\<lambda>btx.
      addStorageProofs txid (StorageProofs t) btx)))))"

definition addTransaction :: "Pkg \<Rightarrow> Tx \<Rightarrow> Transaction \<Rightarrow> result" where
  "addTransaction P btx t =
     (let txid = TransactionID P t in
      andThen (addTransactionCoin P btx t) (\<lambda>btx.
      andThen (addSiafundInputs txid (SiafundInputs t) btx) (\<lambda>btx.
      andThen (addSiafundOutputs P t txid 0 (SiafundOutputs t) btx) (\<lambda>btx.
      addHashType btx txid hashTransaction))))"

section \<open>addBlockDB\<close>

text \<open>Lines 180-195: the target recorded for the block, or the panic.\<close>

definition blockTarget :: "Pkg \<Rightarrow> BlockExplorer \<Rightarrow> Block \<Rightarrow> Target exit" where
  "blockTarget P be b =
     (if BlockID P b = genesisBlockID be then Return RootDepth
      else
        (case cs_ChildTarget be (ParentID b) of
           (blocktarget, exists) \<Rightarrow>
             if build_DEBUG P then
               (let blocktarget =
                      (if build_Release P = ''testing'' then RootDepth else blocktarget)
                in if \<not> exists then Panic ''Applied block not in consensus''
                   else Return blocktarget)
             else Return blocktarget))"

text \<open>Lines 243-252.\<close>

fun addTransactions :: "Pkg \<Rightarrow> Block \<Rightarrow> nat \<Rightarrow> Transaction list \<Rightarrow> Tx \<Rightarrow> result" where
  "addTransactions P b i [] tx = (None, tx)"
| "addTransactions P b i (txn # rest) tx =
     andThen (addNewHash tx ''Transactions'' hashTransaction (TransactionID P txn)
                (VTxInfo \<lparr>ti_BlockID = BlockID P b, ti_TxNum = int i\<rparr>)) (\<lambda>tx.
     andThen (addTransaction P tx txn) (\<lambda>tx.
     addTransactions P b (Suc i) rest tx))"

text \<open>
  Lines 203-240: the block record, the height summary, the hash tag of the block and the
  miner payouts.
\<close>

definition addBlockHead :: "Pkg \<Rightarrow> BlockExplorer \<Rightarrow> Block \<Rightarrow> Target \<Rightarrow> Tx \<Rightarrow> result" where
  "addBlockHead P be b blocktarget tx =
     (let blockStruct = \<lparr>bd_Block = b, bd_Height = blockchainHeight be\<rparr> in
      andThen (addNewHash tx ''Blocks'' hashBlock (BlockID P b) (VBlock blockStruct)) (\<lambda>tx.
      let bSum = \<lparr>ebd_ID = BlockID P b, ebd_Timestamp = Timestamp b,
                  ebd_Target = blocktarget, ebd_Size = of_nat (MarshalLen P b)\<rparr> in
      andThen (addHeight tx (blockchainHeight be) bSum) (\<lambda>tx.
      andThen (addHashType tx (BlockID P b) hashBlock) (\<lambda>tx.
      addOutputs (MinerPayoutID P b) (BlockID P b) 0 (MinerPayouts b) tx))))"

text \<open>Lines 203-252: everything between \<^verbatim>\<open>Begin\<close> and \<^verbatim>\<open>Commit\<close>.\<close>

definition addBlockTx :: "Pkg \<Rightarrow> BlockExplorer \<Rightarrow> Block \<Rightarrow> Target \<Rightarrow> Tx \<Rightarrow> result" where
  "addBlockTx P be b blocktarget tx =
     andThen (addBlockHead P be b blocktarget tx) (\<lambda>tx.
     addTransactions P b 0 (Transactions b) tx)"

text \<open>
  \<^verbatim>\<open>defer tx.Rollback()\<close> runs on every return after \<^verbatim>\<open>Begin\<close>: on an error return the
  database is the rolled-back one; after a successful \<^verbatim>\<open>Commit\<close> the transaction is
  closed and the rollback changes nothing.
\<close>

definition addBlockDB :: "Pkg \<Rightarrow> BlockExplorer \<Rightarrow> Block \<Rightarrow> (error option \<times> DB) exit" where
  "addBlockDB P be b =
     (case blockTarget P be b of
        Panic msg \<Rightarrow> Panic msg
      | Return blocktarget \<Rightarrow>
          Return
            (case Begin (db be) of
               Inl err \<Rightarrow> (Some err, db be)
             | Inr tx \<Rightarrow>
                 (case addBlockTx P be b blocktarget tx of
                    (Some err, tx) \<Rightarrow> (Some err, Rollback (db be) tx)
                  | (None, tx) \<Rightarrow> Commit (db be) tx)))"

section \<open>Observing the store\<close>

text \<open>The read side: the value stored under a key of a named bucket, if any.\<close>

definition lookup :: "Tx \<Rightarrow> string \<Rightarrow> key \<Rightarrow> val option" where
  "lookup tx name k = (case tx name of None \<Rightarrow> None | Some b \<Rightarrow> b k)"

text \<open>
  A sequence of calls of one writer \<open>f\<close> (\<open>addSiacoinInput\<close>, \<open>addSiafundInput\<close>,
  \<open>addFcRevision\<close> or \<open>addFcProof\<close>), each with its own key and transaction id, in
  the order of arrival and stopping at the first error, as the loops of
  \<open>addTransaction\<close> issue them over consecutive transactions.
\<close>

fun runOps :: "(Tx \<Rightarrow> Hash \<Rightarrow> Hash \<Rightarrow> result) \<Rightarrow> (Hash \<times> Hash) list \<Rightarrow> Tx \<Rightarrow> result" where
  "runOps f [] tx = (None, tx)"
| "runOps f ((k, txid) # rest) tx = andThen (f tx k txid) (\<lambda>tx. runOps f rest tx)"

text \<open>
  The input loop over the output ids \<open>ids\<close> meets a missing record before any record
  that does not decode: going through the ids in order, the records are there and
  decode as \<^verbatim>\<open>outputTransactions\<close> up to an id that has no record in the bucket \<open>name\<close>,
  which exists.
\<close>

fun missingInput :: "Tx \<Rightarrow> string \<Rightarrow> Hash list \<Rightarrow> bool" where
  "missingInput tx name [] = False"
| "missingInput tx name (i # rest) =
     (case lookup tx name (KHash i) of
        None \<Rightarrow> tx name \<noteq> None
      | Some v \<Rightarrow> asOutput v \<noteq> None \<and> missingInput tx name rest)"

section \<open>Example inputs\<close>

text \<open>A debug build of the test release, with constant identifier functions.\<close>

definition pkg0 :: Pkg where
  "pkg0 = \<lparr>build_DEBUG = True, build_Release = ''testing'',
     BlockID = (\<lambda>b. 1), MinerPayoutID = (\<lambda>b i. 2), TransactionID = (\<lambda>t. 3),
     SiacoinOutputID = (\<lambda>t i. 4), FileContractID = (\<lambda>t i. 5),
     StorageProofOutputID = (\<lambda>fcid valid i. 6), SiafundOutputID = (\<lambda>t i. 7),
     MarshalLen = (\<lambda>b. 100)\<rparr>"

text \<open>A store without the bucket Addresses, holding the contract 9 created by 8.\<close>

definition store0 :: Tx where
  "store0 = [''Hashes'' \<mapsto> Map.empty, ''Blocks'' \<mapsto> Map.empty, ''Heights'' \<mapsto> Map.empty,
     ''Transactions'' \<mapsto> Map.empty,
     ''FileContracts'' \<mapsto> [KHash 9 \<mapsto> VContract \<lparr>Contract = 8, Revisions = [], Proof = 0\<rparr>]]"

text \<open>A transaction with one revision of contract 9, whose new unlock hash is 7.\<close>

definition rev0 :: FileContractRevision where
  "rev0 = \<lparr>fcr_ParentID = 9, fcr_NewValidProofOutputs = [], fcr_NewMissedProofOutputs = [],
     fcr_NewUnlockHash = 7\<rparr>"

definition txn0 :: Transaction where
  "txn0 = \<lparr>SiacoinInputs = [], SiacoinOutputs = [], FileContracts = [],
     FileContractRevisions = [rev0], StorageProofs = [], SiafundInputs = [],
     SiafundOutputs = []\<rparr>"

definition block0 :: Block where
  "block0 = \<lparr>ParentID = 0, Timestamp = 0, MinerPayouts = [], Transactions = [txn0]\<rparr>"

text \<open>
  Two explorers over \<open>store0\<close>: for \<open>be0\<close> the block \<open>block0\<close> (id 1) is the genesis
  block; for \<open>be1\<close> it is not, and the consensus set does not know its parent.
\<close>

definition be0 :: BlockExplorer where
  "be0 = \<lparr>genesisBlockID = 1, blockchainHeight = 0, cs_ChildTarget = (\<lambda>h. (0, False)),
     db = \<lparr>buckets = store0, beginErr = None, commitErr = None\<rparr>\<rparr>"

definition be1 :: BlockExplorer where
  "be1 = \<lparr>genesisBlockID = 0, blockchainHeight = 5, cs_ChildTarget = (\<lambda>h. (0, False)),
     db = \<lparr>buckets = store0, beginErr = None, commitErr = None\<rparr>\<rparr>"

text \<open>
  The open transaction at the moment addBlockDB, run by \<open>be0\<close> on \<open>block0\<close>, calls
  addTransaction.
\<close>

definition state0 :: Tx where
  "state0 = snd (addNewHash (snd (addBlockHead pkg0 be0 block0 RootDepth store0))
     ''Transactions'' hashTransaction 3 (VTxInfo \<lparr>ti_BlockID = 1, ti_TxNum = 0\<rparr>))"

text \<open>A store in which the address 1 already has the list [10].\<close>

definition store1 :: Tx where
  "store1 = [''Hashes'' \<mapsto> Map.empty, ''Addresses'' \<mapsto> [KHash 1 \<mapsto> VHashes [10]]]"

text \<open>A store with empty buckets Hashes, SiacoinOutputs and SiafundOutputs.\<close>

definition store2 :: Tx where
  "store2 = [''Hashes'' \<mapsto> Map.empty, ''SiacoinOutputs'' \<mapsto> Map.empty,
     ''SiafundOutputs'' \<mapsto> Map.empty]"

text \<open>A store with two coin outputs, one fund output and one contract, all untouched.\<close>

definition store3 :: Tx where
  "store3 = [''SiacoinOutputs'' \<mapsto> [KHash 4 \<mapsto> VOutput \<lparr>OutputTx = 3, InputTx = 0\<rparr>,
                                     KHash 10 \<mapsto> VOutput \<lparr>OutputTx = 3, InputTx = 0\<rparr>],
     ''SiafundOutputs'' \<mapsto> [KHash 4 \<mapsto> VOutput \<lparr>OutputTx = 3, InputTx = 0\<rparr>],
     ''FileContracts'' \<mapsto> [KHash 9 \<mapsto> VContract \<lparr>Contract = 8, Revisions = [], Proof = 0\<rparr>]]"

text \<open>A store with all eight buckets, empty, and a contract with one valid proof output.\<close>

definition store4 :: Tx where
  "store4 = [''Hashes'' \<mapsto> Map.empty, ''Addresses'' \<mapsto> Map.empty, ''Blocks'' \<mapsto> Map.empty,
     ''Heights'' \<mapsto> Map.empty, ''Transactions'' \<mapsto> Map.empty,
     ''SiacoinOutputs'' \<mapsto> Map.empty, ''SiafundOutputs'' \<mapsto> Map.empty,
     ''FileContracts'' \<mapsto> Map.empty]"

definition contract0 :: FileContract where
  "contract0 = \<lparr>fc_ValidProofOutputs = [\<lparr>sco_Value = 1, sco_UnlockHash = 11\<rparr>],
     fc_MissedProofOutputs = [], fc_UnlockHash = 12\<rparr>"

text \<open>A block with one miner payout, and an explorer over \<open>store4\<close> for which it is the genesis block.\<close>

definition block1 :: Block where
  "block1 = \<lparr>ParentID = 0, Timestamp = 77,
     MinerPayouts = [\<lparr>sco_Value = 1, sco_UnlockHash = 11\<rparr>], Transactions = []\<rparr>"

definition be2 :: BlockExplorer where
  "be2 = \<lparr>genesisBlockID = 1, blockchainHeight = 0, cs_ChildTarget = (\<lambda>h. (0, False)),
     db = \<lparr>buckets = store4, beginErr = None, commitErr = None\<rparr>\<rparr>"

text \<open>
  A transaction whose coin input references the output 42, and one with a coin output
  whose fund input references the output 43; no store here has these outputs.  A block
  around each.
\<close>

definition txn1 :: Transaction where
  "txn1 = \<lparr>SiacoinInputs = [\<lparr>sci_ParentID = 42\<rparr>], SiacoinOutputs = [], FileContracts = [],
     FileContractRevisions = [], StorageProofs = [], SiafundInputs = [],
     SiafundOutputs = []\<rparr>"

definition txn2 :: Transaction where
  "txn2 = \<lparr>SiacoinInputs = [], SiacoinOutputs = [\<lparr>sco_Value = 1, sco_UnlockHash = 11\<rparr>],
     FileContracts = [], FileContractRevisions = [], StorageProofs = [],
     SiafundInputs = [\<lparr>sfi_ParentID = 43\<rparr>], SiafundOutputs = []\<rparr>"

definition block2 :: Block where
  "block2 = \<lparr>ParentID = 0, Timestamp = 0,
     MinerPayouts = [\<lparr>sco_Value = 1, sco_UnlockHash = 11\<rparr>], Transactions = [txn1]\<rparr>"

definition block3 :: Block where
  "block3 = \<lparr>ParentID = 0, Timestamp = 0, MinerPayouts = [], Transactions = [txn2]\<rparr>"

text \<open>
  The open transaction at the moment addTransaction is called on the transaction of
  \<open>block2\<close>, and of \<open>block3\<close>, by the explorer \<open>be2\<close>.
\<close>

definition state2 :: Tx where
  "state2 = snd (addNewHash (snd (addBlockHead pkg0 be2 block2 RootDepth store4))
     ''Transactions'' hashTransaction 3 (VTxInfo \<lparr>ti_BlockID = 1, ti_TxNum = 0\<rparr>))"

definition state3 :: Tx where
  "state3 = snd (addNewHash (snd (addBlockHead pkg0 be2 block3 RootDepth store4))
     ''Transactions'' hashTransaction 3 (VTxInfo \<lparr>ti_BlockID = 1, ti_TxNum = 0\<rparr>))"

section \<open>Sequencing\<close>

lemma andThen_None [simp]: "andThen (None, tx) g = g tx"
  by (simp add: andThen_def)

lemma andThen_Some [simp]: "andThen (Some e, tx) g = (Some e, tx)"
  by (simp add: andThen_def)

lemma andThen_eq_None:
  "andThen r g = (None, tx') \<longleftrightarrow> (\<exists>tx1. r = (None, tx1) \<and> g tx1 = (None, tx'))"
proof (cases r)
  case (Pair e tx1)
  then show ?thesis by (cases e) auto
qed

lemma fst_andThen:
  "fst (andThen r g) = (case fst r of Some e \<Rightarrow> Some e | None \<Rightarrow> fst (g (snd r)))"
proof (cases r)
  case (Pair e tx1)
  then show ?thesis by (cases e) auto
qed

lemma andThen_frame:
  assumes "snd r n = v" and "\<And>tx. snd (g tx) n = tx n"
  shows "snd (andThen r g) n = v"
proof (cases r)
  case (Pair e tx1)
  with assms show ?thesis by (cases e) auto
qed

lemma andThen_assoc:
  "andThen (andThen r f) g = andThen r (\<lambda>tx. andThen (f tx) g)"
proof (cases r)
  case (Pair e tx1)
  then show ?thesis by (cases e) auto
qed

section \<open>The writers, one by one\<close>

lemma addHashType_frame: "n \<noteq> ''Hashes'' \<Longrightarrow> snd (addHashType tx h t) n = tx n"
  by (simp add: addHashType_def putObject_def split: option.split)

lemma addHashType_ok:
  "tx ''Hashes'' = Some hb \<Longrightarrow>
   addHashType tx h t = (None, tx(''Hashes'' \<mapsto> hb(KHash h \<mapsto> VHashType t)))"
  by (simp add: addHashType_def putObject_def)

lemma addAddress_frame:
  "n \<noteq> ''Hashes'' \<Longrightarrow> n \<noteq> ''Addresses'' \<Longrightarrow> snd (addAddress tx a t) n = tx n"
  unfolding addAddress_def
  by (rule andThen_frame)
     (simp_all add: addHashType_frame putObject_def split: option.split prod.split)

lemma addNewHash_frame:
  "n \<noteq> ''Hashes'' \<Longrightarrow> n \<noteq> name \<Longrightarrow> snd (addNewHash tx name ty h v) n = tx n"
  unfolding addNewHash_def
  by (rule andThen_frame) (simp_all add: addHashType_frame putObject_def split: option.split)

lemma addNewOutput_frame:
  "n \<noteq> ''Hashes'' \<Longrightarrow> n \<noteq> ''SiacoinOutputs'' \<Longrightarrow> snd (addNewOutput tx oid t) n = tx n"
  by (simp add: addNewOutput_def addNewHash_frame)

lemma addNewSFOutput_frame:
  "n \<noteq> ''Hashes'' \<Longrightarrow> n \<noteq> ''SiafundOutputs'' \<Longrightarrow> snd (addNewSFOutput tx oid t) n = tx n"
  by (simp add: addNewSFOutput_def addNewHash_frame)

lemma addSiacoinInput_frame:
  "n \<noteq> ''SiacoinOutputs'' \<Longrightarrow> snd (addSiacoinInput tx oid t) n = tx n"
  by (simp add: addSiacoinInput_def putObject_def split: option.split prod.split)

lemma addSiafundInput_frame:
  "n \<noteq> ''SiafundOutputs'' \<Longrightarrow> snd (addSiafundInput tx oid t) n = tx n"
  by (simp add: addSiafundInput_def putObject_def split: option.split prod.split)

lemma addFcRevision_frame:
  "n \<noteq> ''FileContracts'' \<Longrightarrow> snd (addFcRevision tx c t) n = tx n"
  by (simp add: addFcRevision_def putObject_def split: option.split prod.split)

lemma addFcProof_frame:
  "n \<noteq> ''FileContracts'' \<Longrightarrow> snd (addFcProof tx c t) n = tx n"
  by (simp add: addFcProof_def putObject_def split: option.split prod.split)

lemma addHeight_frame:
  "n \<noteq> ''Heights'' \<Longrightarrow> snd (addHeight tx h bs) n = tx n"
  by (simp add: addHeight_def putObject_def split: option.split)

section \<open>The loops\<close>

lemma addOutputs_frame:
  "n \<noteq> ''Hashes'' \<Longrightarrow> n \<noteq> ''Addresses'' \<Longrightarrow> n \<noteq> ''SiacoinOutputs'' \<Longrightarrow>
   snd (addOutputs idOf txid i outs tx) n = tx n"
proof (induction outs arbitrary: i tx)
  case Nil
  then show ?case by simp
next
  case (Cons out rest)
  show ?case
    unfolding addOutputs.simps
    by (intro andThen_frame) (simp_all add: addAddress_frame addNewOutput_frame Cons)
qed

lemma addSiacoinInputs_frame:
  "n \<noteq> ''SiacoinOutputs'' \<Longrightarrow> snd (addSiacoinInputs txid ins tx) n = tx n"
proof (induction ins arbitrary: tx)
  case Nil
  then show ?case by simp
next
  case (Cons inp rest)
  show ?case
    unfolding addSiacoinInputs.simps
    by (intro andThen_frame) (simp_all add: addSiacoinInput_frame Cons)
qed

lemma addSiafundInputs_frame:
  "n \<noteq> ''SiafundOutputs'' \<Longrightarrow> snd (addSiafundInputs txid ins tx) n = tx n"
proof (induction ins arbitrary: tx)
  case Nil
  then show ?case by simp
next
  case (Cons inp rest)
  show ?case
    unfolding addSiafundInputs.simps
    by (intro andThen_frame) (simp_all add: addSiafundInput_frame Cons)
qed

lemma addStorageProofs_frame:
  "n \<noteq> ''FileContracts'' \<Longrightarrow> snd (addStorageProofs txid ps tx) n = tx n"
proof (induction ps arbitrary: tx)
  case Nil
  then show ?case by simp
next
  case (Cons p rest)
  show ?case
    unfolding addStorageProofs.simps
    by (intro andThen_frame) (simp_all add: addFcProof_frame Cons)
qed

lemma addFileContracts_frame:
  "n \<noteq> ''Hashes'' \<Longrightarrow> n \<noteq> ''Addresses'' \<Longrightarrow> n \<noteq> ''SiacoinOutputs'' \<Longrightarrow>
   n \<noteq> ''FileContracts'' \<Longrightarrow> snd (addFileContracts P t txid i cs tx) n = tx n"
proof (induction cs arbitrary: i tx)
  case Nil
  then show ?case by simp
next
  case (Cons c rest)
  show ?case
    unfolding addFileContracts.simps Let_def
    by (intro andThen_frame)
       (simp_all add: addNewHash_frame addOutputs_frame addAddress_frame Cons)
qed

lemma addRevisions_frame:
  "n \<noteq> ''Hashes'' \<Longrightarrow> n \<noteq> ''Addresses'' \<Longrightarrow> n \<noteq> ''SiacoinOutputs'' \<Longrightarrow>
   n \<noteq> ''FileContracts'' \<Longrightarrow> snd (addRevisions P txid rs tx) n = tx n"
proof (induction rs arbitrary: tx)
  case Nil
  then show ?case by simp
next
  case (Cons r rest)
  show ?case
    unfolding addRevisions.simps ignoreError_def
    by (intro andThen_frame)
       (simp_all add: addFcRevision_frame addOutputs_frame addAddress_frame Cons)
qed

lemma addSiafundOutputs_frame:
  "n \<noteq> ''Hashes'' \<Longrightarrow> n \<noteq> ''Addresses'' \<Longrightarrow> n \<noteq> ''SiafundOutputs'' \<Longrightarrow>
   snd (addSiafundOutputs P t txid i outs tx) n = tx n"
proof (induction outs arbitrary: i tx)
  case Nil
  then show ?case by simp
next
  case (Cons out rest)
  show ?case
    unfolding addSiafundOutputs.simps
    by (intro andThen_frame) (simp_all add: addAddress_frame addNewSFOutput_frame Cons)
qed

lemma addTransactionCoin_frame:
  "n \<noteq> ''Hashes'' \<Longrightarrow> n \<noteq> ''Addresses'' \<Longrightarrow> n \<noteq> ''SiacoinOutputs'' \<Longrightarrow>
   n \<noteq> ''FileContracts'' \<Longrightarrow> snd (addTransactionCoin P tx t) n = tx n"
  unfolding addTransactionCoin_def Let_def
  by (intro andThen_frame)
     (simp_all add: addSiacoinInputs_frame addOutputs_frame addFileContracts_frame
        addRevisions_frame addStorageProofs_frame)

lemma addTransaction_frame:
  "n \<noteq> ''Hashes'' \<Longrightarrow> n \<noteq> ''Addresses'' \<Longrightarrow> n \<noteq> ''SiacoinOutputs'' \<Longrightarrow>
   n \<noteq> ''FileContracts'' \<Longrightarrow> n \<noteq> ''SiafundOutputs'' \<Longrightarrow>
   snd (addTransaction P tx t) n = tx n"
  unfolding addTransaction_def Let_def
  by (intro andThen_frame)
     (simp_all add: addTransactionCoin_frame addSiafundInputs_frame addSiafundOutputs_frame
        addHashType_frame)

lemma addTransactions_frame:
  "n \<noteq> ''Hashes'' \<Longrightarrow> n \<noteq> ''Addresses'' \<Longrightarrow> n \<noteq> ''SiacoinOutputs'' \<Longrightarrow>
   n \<noteq> ''FileContracts'' \<Longrightarrow> n \<noteq> ''SiafundOutputs'' \<Longrightarrow> n \<noteq> ''Transactions'' \<Longrightarrow>
   snd (addTransactions P b i txns tx) n = tx n"
proof (induction txns arbitrary: i tx)
  case Nil
  then show ?case by simp
next
  case (Cons txn rest)
  show ?case
    unfolding addTransactions.simps
    by (intro andThen_frame) (simp_all add: addNewHash_frame addTransaction_frame Cons)
qed


lemmas model_defs =
  andThen_def ignoreError_def getObject_def putObject_def lookup_def
  addHashType_def addAddress_def addSiacoinInput_def addSiafundInput_def addFcRevision_def
  addFcProof_def addNewHash_def addNewOutput_def addNewSFOutput_def addHeight_def
  addTransactionCoin_def addTransaction_def blockTarget_def addBlockHead_def addBlockTx_def
  addBlockDB_def Begin_def Commit_def Rollback_def

lemmas example_defs =
  pkg0_def store0_def rev0_def txn0_def block0_def be0_def be1_def state0_def store1_def

section \<open>Rollback on an error return\<close>

lemma addBlockDB_error_keeps_db:
  "addBlockDB P be b = Return (Some err, d) \<Longrightarrow> d = db be"
  by (auto simp: addBlockDB_def Begin_def Commit_def Rollback_def
           split: exit.splits sum.splits option.splits prod.splits)

text \<open>
  Claim C1: if any step of addBlockDB fails, the store is at return exactly as it was
  before the block; writes become visible only when every step succeeds and the
  transaction commits.

  The code does not keep this for the step of line 351.  For the block \<open>block0\<close> on the
  store \<open>store0\<close>, which has no bucket Addresses, the call of addAddress for the new
  unlock hash 7 of the revision writes the hash tag of 7 and then fails; the error is
  dropped, addBlockDB returns nil and commits: the tag of 7, absent before, is in the
  store, with no address list beside it.
\<close>

theorem addBlockDB_commits_after_failed_step:
  "fst (addAddress (snd (addFcRevision state0 9 3)) 7 3) \<noteq> None \<and>
   lookup (buckets (db be0)) ''Hashes'' (KHash 7) = None \<and>
   (case addBlockDB pkg0 be0 block0 of
      Return (err, d) \<Rightarrow>
        err = None \<and>
        lookup (buckets d) ''Hashes'' (KHash 7) = Some (VHashType hashUnlockHash) \<and>
        lookup (buckets d) ''Addresses'' (KHash 7) = None
    | Panic msg \<Rightarrow> False)"
  by (simp add: model_defs example_defs)

section \<open>The list of an address\<close>

lemma addAddress_first_reference:
  assumes "tx ''Hashes'' = Some hb" and "tx ''Addresses'' = Some ab"
    and "ab (KHash addr) = None"
  shows "fst (addAddress tx addr txid) = None \<and>
         lookup (snd (addAddress tx addr txid)) ''Addresses'' (KHash addr)
           = Some (VHashes [txid])"
  using assms by (simp add: addAddress_def addHashType_ok getObject_def putObject_def lookup_def)

lemma addAddress_undecodable:
  assumes "tx ''Hashes'' = Some hb" and "tx ''Addresses'' = Some ab"
    and "ab (KHash addr) = Some v" and "asHashes v = None"
  shows "fst (addAddress tx addr txid) = Some ErrUnmarshal"
  using assms by (simp add: addAddress_def addHashType_ok getObject_def)

lemma addAddress_further_reference:
  assumes "tx ''Hashes'' = Some hb" and "tx ''Addresses'' = Some ab"
    and "ab (KHash addr) = Some (VHashes txns)"
  shows "fst (addAddress tx addr txid) = None \<and>
         lookup (snd (addAddress tx addr txid)) ''Addresses'' (KHash addr)
           = Some (VHashes txns)"
  using assms by (simp add: addAddress_def addHashType_ok getObject_def lookup_def)

text \<open>
  Claim C2: a first reference to an address initialises its list to one element, a
  further reference appends to it, and only the absent entry is recovered locally.

  The code does not append.  \<open>getObject\<close> returns nil for an address that has a list,
  nil differs from \<open>ErrNilEntry\<close>, and addAddress returns that nil before the append:
  the address 1 with the list [10], referenced again by 11, keeps the list [10].
\<close>

theorem addAddress_existing_list_not_extended:
  "fst (addAddress store1 1 11) = None \<and>
   lookup (snd (addAddress store1 1 11)) ''Addresses'' (KHash 1) = Some (VHashes [10]) \<and>
   lookup (snd (addAddress store1 1 11)) ''Addresses'' (KHash 1) \<noteq> Some (VHashes [10, 11])"
  by (simp add: model_defs example_defs)

section \<open>The unlock hash of a revision\<close>

text \<open>
  Claim C3: addBlock commits only if every indexing step succeeds, the revision address
  indexing included; otherwise the first error is returned, and no failure is ignored.

  The code ignores the error of addAddress on the new unlock hash of a revision
  (line 351).  In the run of addBlockDB on \<open>block0\<close> that call fails with the missing
  bucket Addresses, yet addRevisions and addTransaction return nil, and addBlockDB
  returns nil.
\<close>

theorem addTransaction_drops_revision_address_error:
  "fst (addAddress (snd (addFcRevision state0 9 3)) 7 3)
     = Some (ErrorNew ''Addresses bucket does not exist'') \<and>
   fst (addRevisions pkg0 3 [rev0] state0) = None \<and>
   fst (addTransaction pkg0 state0 txn0) = None \<and>
   (case addBlockDB pkg0 be0 block0 of Return (err, d) \<Rightarrow> err = None | Panic msg \<Rightarrow> False)"
  by (simp add: model_defs example_defs)

section \<open>A block that the consensus set does not know\<close>

lemma debug_lookup_failure_panics:
  assumes "build_DEBUG P" and "BlockID P b \<noteq> genesisBlockID be"
    and "\<not> snd (cs_ChildTarget be (ParentID b))"
  shows "addBlockDB P be b = Panic ''Applied block not in consensus''"
  using assms
  by (cases "cs_ChildTarget be (ParentID b)") (simp add: addBlockDB_def blockTarget_def)

text \<open>
  Claim C9: for a block that is not the genesis block and whose child-target lookup
  fails, a debug build of the test release forces the root target and continues, and a
  debug build of another release panics.

  The code panics in both.  The test for \<^verbatim>\<open>!exists\<close> is not the else branch of the
  test for the release: in the debug build of the test release the target is set to
  the root target and then the panic is raised all the same.
\<close>

theorem addBlockDB_testing_panics:
  "build_DEBUG pkg0 \<and> build_Release pkg0 = ''testing'' \<and>
   BlockID pkg0 block0 \<noteq> genesisBlockID be1 \<and>
   \<not> snd (cs_ChildTarget be1 (ParentID block0)) \<and>
   addBlockDB pkg0 be1 block0 = Panic ''Applied block not in consensus''"
  by (simp add: model_defs example_defs)

section \<open>What the writers store\<close>

lemma lookup_frame: "tx' n = tx n \<Longrightarrow> lookup tx' n k = lookup tx n k"
  by (simp add: lookup_def)

lemma addNewHash_ok:
  "tx ''Hashes'' = Some hb \<Longrightarrow> name \<noteq> ''Hashes'' \<Longrightarrow> tx name = Some b \<Longrightarrow>
   addNewHash tx name ty h v =
     (None, tx(''Hashes'' \<mapsto> hb(KHash h \<mapsto> VHashType ty), name \<mapsto> b(KHash h \<mapsto> v)))"
  by (simp add: addNewHash_def addHashType_ok putObject_def)

lemma addNewHash_lookup:
  "fst (addNewHash tx name ty h v) = None \<Longrightarrow> name \<noteq> ''Hashes'' \<Longrightarrow>
   lookup (snd (addNewHash tx name ty h v)) name (KHash k) =
     (if k = h then Some v else lookup tx name (KHash k))"
  by (auto simp: addNewHash_def addHashType_def putObject_def andThen_def lookup_def
           split: option.splits)

lemma addSiacoinInput_spend:
  "lookup tx ''SiacoinOutputs'' (KHash oid) = Some (VOutput r) \<Longrightarrow>
   fst (addSiacoinInput tx oid txid) = None \<and>
   lookup (snd (addSiacoinInput tx oid txid)) ''SiacoinOutputs'' (KHash k) =
     (if k = oid then Some (VOutput (r\<lparr>InputTx := txid\<rparr>))
      else lookup tx ''SiacoinOutputs'' (KHash k))"
  by (auto simp: addSiacoinInput_def getObject_def putObject_def lookup_def
           split: option.splits)

lemma addSiafundInput_spend:
  "lookup tx ''SiafundOutputs'' (KHash oid) = Some (VOutput r) \<Longrightarrow>
   fst (addSiafundInput tx oid txid) = None \<and>
   lookup (snd (addSiafundInput tx oid txid)) ''SiafundOutputs'' (KHash k) =
     (if k = oid then Some (VOutput (r\<lparr>InputTx := txid\<rparr>))
      else lookup tx ''SiafundOutputs'' (KHash k))"
  by (auto simp: addSiafundInput_def getObject_def putObject_def lookup_def
           split: option.splits)

text \<open>
  Claim C4: after addNewOutput creates the output \<open>oid\<close> with creator \<open>T\<close> the stored
  record is (creator \<open>T\<close>, spender empty); after a later transaction \<open>T2\<close> spends it
  through addSiacoinInput the record is (creator \<open>T\<close>, spender \<open>T2\<close>).  The same for
  fund outputs with addNewSFOutput and addSiafundInput.

  The creation runs on any transaction \<open>tx\<close> that has the buckets; the spend runs on
  any later state \<open>tx2\<close> (\<open>tx3\<close>) in which the record is still the created one.  Both
  calls return nil.
\<close>

theorem output_lifecycle:
  assumes hashes: "tx ''Hashes'' = Some hb"
    and coins: "tx ''SiacoinOutputs'' = Some cb"
    and funds: "tx ''SiafundOutputs'' = Some fb"
    and later_coin: "lookup tx2 ''SiacoinOutputs'' (KHash oid) =
                     lookup (snd (addNewOutput tx oid T)) ''SiacoinOutputs'' (KHash oid)"
    and later_fund: "lookup tx3 ''SiafundOutputs'' (KHash oid) =
                     lookup (snd (addNewSFOutput tx oid T)) ''SiafundOutputs'' (KHash oid)"
  shows "fst (addNewOutput tx oid T) = None \<and>
         lookup (snd (addNewOutput tx oid T)) ''SiacoinOutputs'' (KHash oid)
           = Some (VOutput \<lparr>OutputTx = T, InputTx = 0\<rparr>) \<and>
         fst (addSiacoinInput tx2 oid T2) = None \<and>
         lookup (snd (addSiacoinInput tx2 oid T2)) ''SiacoinOutputs'' (KHash oid)
           = Some (VOutput \<lparr>OutputTx = T, InputTx = T2\<rparr>) \<and>
         fst (addNewSFOutput tx oid T) = None \<and>
         lookup (snd (addNewSFOutput tx oid T)) ''SiafundOutputs'' (KHash oid)
           = Some (VOutput \<lparr>OutputTx = T, InputTx = 0\<rparr>) \<and>
         fst (addSiafundInput tx3 oid T2) = None \<and>
         lookup (snd (addSiafundInput tx3 oid T2)) ''SiafundOutputs'' (KHash oid)
           = Some (VOutput \<lparr>OutputTx = T, InputTx = T2\<rparr>)"
proof -
  have c1: "fst (addNewOutput tx oid T) = None"
    using hashes coins by (simp add: addNewOutput_def addNewHash_ok)
  have c2: "lookup (snd (addNewOutput tx oid T)) ''SiacoinOutputs'' (KHash oid)
              = Some (VOutput \<lparr>OutputTx = T, InputTx = 0\<rparr>)"
    using hashes coins by (simp add: addNewOutput_def addNewHash_ok lookup_def)
  have f1: "fst (addNewSFOutput tx oid T) = None"
    using hashes funds by (simp add: addNewSFOutput_def addNewHash_ok)
  have f2: "lookup (snd (addNewSFOutput tx oid T)) ''SiafundOutputs'' (KHash oid)
              = Some (VOutput \<lparr>OutputTx = T, InputTx = 0\<rparr>)"
    using hashes funds by (simp add: addNewSFOutput_def addNewHash_ok lookup_def)
  from later_coin c2
  have c3: "lookup tx2 ''SiacoinOutputs'' (KHash oid) = Some (VOutput \<lparr>OutputTx = T, InputTx = 0\<rparr>)"
    by simp
  from later_fund f2
  have f3: "lookup tx3 ''SiafundOutputs'' (KHash oid) = Some (VOutput \<lparr>OutputTx = T, InputTx = 0\<rparr>)"
    by simp
  show ?thesis
    using c1 c2 f1 f2 addSiacoinInput_spend [OF c3, of T2 oid]
      addSiafundInput_spend [OF f3, of T2 oid]
    by simp
qed

theorem output_lifecycle_witness:
  "fst (addNewOutput store2 4 3) = None \<and>
   lookup (snd (addNewOutput store2 4 3)) ''SiacoinOutputs'' (KHash 4)
     = Some (VOutput \<lparr>OutputTx = 3, InputTx = 0\<rparr>) \<and>
   fst (addSiacoinInput (snd (addNewOutput store2 4 3)) 4 8) = None \<and>
   lookup (snd (addSiacoinInput (snd (addNewOutput store2 4 3)) 4 8)) ''SiacoinOutputs'' (KHash 4)
     = Some (VOutput \<lparr>OutputTx = 3, InputTx = 8\<rparr>) \<and>
   fst (addNewSFOutput store2 4 3) = None \<and>
   lookup (snd (addNewSFOutput store2 4 3)) ''SiafundOutputs'' (KHash 4)
     = Some (VOutput \<lparr>OutputTx = 3, InputTx = 0\<rparr>) \<and>
   fst (addSiafundInput (snd (addNewSFOutput store2 4 3)) 4 8) = None \<and>
   lookup (snd (addSiafundInput (snd (addNewSFOutput store2 4 3)) 4 8)) ''SiafundOutputs'' (KHash 4)
     = Some (VOutput \<lparr>OutputTx = 3, InputTx = 8\<rparr>)"
  by (rule output_lifecycle [where hb = Map.empty and cb = Map.empty and fb = Map.empty])
     (simp_all add: store2_def)

section \<open>Contracts\<close>

lemma addFcRevision_spec:
  "lookup tx ''FileContracts'' (KHash c) = Some (VContract fi) \<Longrightarrow>
   fst (addFcRevision tx c txid) = None \<and>
   lookup (snd (addFcRevision tx c txid)) ''FileContracts'' (KHash k) =
     (if k = c then Some (VContract (fi\<lparr>Revisions := Revisions fi @ [txid]\<rparr>))
      else lookup tx ''FileContracts'' (KHash k))"
  by (auto simp: addFcRevision_def getObject_def putObject_def lookup_def
           split: option.splits)

lemma addFcProof_spec:
  "lookup tx ''FileContracts'' (KHash c) = Some (VContract fi) \<Longrightarrow>
   fst (addFcProof tx c txid) = None \<and>
   lookup (snd (addFcProof tx c txid)) ''FileContracts'' (KHash k) =
     (if k = c then Some (VContract (fi\<lparr>Proof := txid\<rparr>))
      else lookup tx ''FileContracts'' (KHash k))"
  by (auto simp: addFcProof_def getObject_def putObject_def lookup_def
           split: option.splits)

text \<open>A writer that returns nil found a record of the right type under its key.\<close>

lemma addFcRevision_None:
  "fst (addFcRevision tx c txid) = None \<Longrightarrow>
   \<exists>fi. lookup tx ''FileContracts'' (KHash c) = Some (VContract fi)"
  by (auto simp: addFcRevision_def getObject_def putObject_def lookup_def
           split: option.splits elim: asContract.elims)

lemma addFcProof_None:
  "fst (addFcProof tx c txid) = None \<Longrightarrow>
   \<exists>fi. lookup tx ''FileContracts'' (KHash c) = Some (VContract fi)"
  by (auto simp: addFcProof_def getObject_def putObject_def lookup_def
           split: option.splits elim: asContract.elims)

lemma addSiacoinInput_None:
  "fst (addSiacoinInput tx oid txid) = None \<Longrightarrow>
   \<exists>r. lookup tx ''SiacoinOutputs'' (KHash oid) = Some (VOutput r)"
  by (auto simp: addSiacoinInput_def getObject_def putObject_def lookup_def
           split: option.splits elim: asOutput.elims)

lemma addSiafundInput_None:
  "fst (addSiafundInput tx oid txid) = None \<Longrightarrow>
   \<exists>r. lookup tx ''SiafundOutputs'' (KHash oid) = Some (VOutput r)"
  by (auto simp: addSiafundInput_def getObject_def putObject_def lookup_def
           split: option.splits elim: asOutput.elims)

lemma runOps_Cons_None:
  "runOps f ((k, txid) # rest) tx = (None, tx') \<longleftrightarrow>
   fst (f tx k txid) = None \<and> runOps f rest (snd (f tx k txid)) = (None, tx')"
  by (cases "f tx k txid") (auto simp: andThen_eq_None)

lemma revisions_run:
  "runOps addFcRevision ops tx = (None, tx') \<Longrightarrow>
   lookup tx ''FileContracts'' (KHash c) = Some (VContract fi) \<Longrightarrow>
   lookup tx' ''FileContracts'' (KHash c) =
     Some (VContract (fi\<lparr>Revisions := Revisions fi @ map snd (filter (\<lambda>op. fst op = c) ops)\<rparr>))"
proof (induction ops arbitrary: tx fi)
  case Nil
  then show ?case by simp
next
  case (Cons op rest)
  obtain k txid where op: "op = (k, txid)" by (cases op)
  have ok: "fst (addFcRevision tx k txid) = None"
    and run: "runOps addFcRevision rest (snd (addFcRevision tx k txid)) = (None, tx')"
    using Cons.prems(1) unfolding op runOps_Cons_None by simp_all
  show ?case
  proof (cases "k = c")
    case True
    from addFcRevision_spec [OF Cons.prems(2), of txid c]
    have "lookup (snd (addFcRevision tx c txid)) ''FileContracts'' (KHash c)
            = Some (VContract (fi\<lparr>Revisions := Revisions fi @ [txid]\<rparr>))"
      by simp
    from Cons.IH [OF run [unfolded True] this] show ?thesis
      by (simp add: op True)
  next
    case False
    from addFcRevision_None [OF ok] obtain fk
      where fk: "lookup tx ''FileContracts'' (KHash k) = Some (VContract fk)" by blast
    from addFcRevision_spec [OF fk, of txid c] False Cons.prems(2)
    have "lookup (snd (addFcRevision tx k txid)) ''FileContracts'' (KHash c)
            = Some (VContract fi)"
      by simp
    from Cons.IH [OF run this] show ?thesis
      using False by (simp add: op)
  qed
qed

text \<open>
  Claim C7: addFcRevision appends the id of the revising transaction to the end of the
  revision list of the contract and leaves its creator id and proof id unchanged; over
  any sequence of revision operations the revisions accumulate in arrival order.

  A single call on an existing contract record returns nil and appends.  After a
  sequence \<open>ops\<close> of calls (contract id, transaction id) that all returned nil, on
  this and on other contracts, the list of contract \<open>c\<close> is the old list followed by
  the transaction ids of the calls on \<open>c\<close>, in the order of the calls.
\<close>

theorem revisions_accumulate:
  assumes rec: "lookup tx ''FileContracts'' (KHash c) = Some (VContract fi)"
    and run: "runOps addFcRevision ops tx = (None, tx')"
  shows "fst (addFcRevision tx c txid) = None \<and>
         lookup (snd (addFcRevision tx c txid)) ''FileContracts'' (KHash c) =
           Some (VContract \<lparr>Contract = Contract fi, Revisions = Revisions fi @ [txid],
                            Proof = Proof fi\<rparr>) \<and>
         lookup tx' ''FileContracts'' (KHash c) =
           Some (VContract \<lparr>Contract = Contract fi,
                            Revisions = Revisions fi @ map snd (filter (\<lambda>op. fst op = c) ops),
                            Proof = Proof fi\<rparr>)"
  using addFcRevision_spec [OF rec, of txid c] revisions_run [OF run rec]
  by simp

theorem revisions_accumulate_witness:
  "fst (addFcRevision store3 9 5) = None \<and>
   lookup (snd (addFcRevision store3 9 5)) ''FileContracts'' (KHash 9) =
     Some (VContract \<lparr>Contract = 8, Revisions = [5], Proof = 0\<rparr>) \<and>
   lookup (snd (runOps addFcRevision [(9, 5), (9, 6), (9, 5)] store3)) ''FileContracts'' (KHash 9) =
     Some (VContract \<lparr>Contract = 8, Revisions = [5, 6, 5], Proof = 0\<rparr>)"
proof -
  have rec: "lookup store3 ''FileContracts'' (KHash 9)
               = Some (VContract \<lparr>Contract = 8, Revisions = [], Proof = 0\<rparr>)"
    by (simp add: store3_def lookup_def)
  have run: "runOps addFcRevision [(9, 5), (9, 6), (9, 5)] store3
               = (None, snd (runOps addFcRevision [(9, 5), (9, 6), (9, 5)] store3))"
    by (simp add: store3_def addFcRevision_def getObject_def putObject_def)
  from revisions_accumulate [OF rec run, of 5] show ?thesis
    by simp
qed

section \<open>Overwriting the spender and the proof\<close>

lemma spends_run:
  "distinct (map fst ops) \<Longrightarrow> runOps addSiacoinInput ops tx = (None, tx') \<Longrightarrow>
   lookup tx ''SiacoinOutputs'' (KHash oid) = Some (VOutput r) \<Longrightarrow>
   lookup tx' ''SiacoinOutputs'' (KHash oid) =
     Some (VOutput (case map_of ops oid of None \<Rightarrow> r | Some txid \<Rightarrow> r\<lparr>InputTx := txid\<rparr>))"
proof (induction ops arbitrary: tx r)
  case Nil
  then show ?case by simp
next
  case (Cons op rest)
  obtain k txid where op: "op = (k, txid)" by (cases op)
  have ok: "fst (addSiacoinInput tx k txid) = None"
    and run: "runOps addSiacoinInput rest (snd (addSiacoinInput tx k txid)) = (None, tx')"
    using Cons.prems(2) unfolding op runOps_Cons_None by simp_all
  from Cons.prems(1) op have dist: "distinct (map fst rest)" and fresh: "k \<notin> fst ` set rest"
    by simp_all
  show ?case
  proof (cases "k = oid")
    case True
    from fresh True have none: "map_of rest oid = None"
      by (simp add: map_of_eq_None_iff)
    from addSiacoinInput_spend [OF Cons.prems(3), of txid oid]
    have "lookup (snd (addSiacoinInput tx oid txid)) ''SiacoinOutputs'' (KHash oid)
            = Some (VOutput (r\<lparr>InputTx := txid\<rparr>))"
      by simp
    from Cons.IH [OF dist run [unfolded True] this] show ?thesis
      by (simp add: op True none)
  next
    case False
    from addSiacoinInput_None [OF ok] obtain rk
      where rk: "lookup tx ''SiacoinOutputs'' (KHash k) = Some (VOutput rk)" by blast
    from addSiacoinInput_spend [OF rk, of txid oid] False Cons.prems(3)
    have "lookup (snd (addSiacoinInput tx k txid)) ''SiacoinOutputs'' (KHash oid)
            = Some (VOutput r)"
      by simp
    from Cons.IH [OF dist run this] show ?thesis
      using False by (simp add: op)
  qed
qed

lemma fund_spends_run:
  "distinct (map fst ops) \<Longrightarrow> runOps addSiafundInput ops tx = (None, tx') \<Longrightarrow>
   lookup tx ''SiafundOutputs'' (KHash oid) = Some (VOutput r) \<Longrightarrow>
   lookup tx' ''SiafundOutputs'' (KHash oid) =
     Some (VOutput (case map_of ops oid of None \<Rightarrow> r | Some txid \<Rightarrow> r\<lparr>InputTx := txid\<rparr>))"
proof (induction ops arbitrary: tx r)
  case Nil
  then show ?case by simp
next
  case (Cons op rest)
  obtain k txid where op: "op = (k, txid)" by (cases op)
  have ok: "fst (addSiafundInput tx k txid) = None"
    and run: "runOps addSiafundInput rest (snd (addSiafundInput tx k txid)) = (None, tx')"
    using Cons.prems(2) unfolding op runOps_Cons_None by simp_all
  from Cons.prems(1) op have dist: "distinct (map fst rest)" and fresh: "k \<notin> fst ` set rest"
    by simp_all
  show ?case
  proof (cases "k = oid")
    case True
    from fresh True have none: "map_of rest oid = None"
      by (simp add: map_of_eq_None_iff)
    from addSiafundInput_spend [OF Cons.prems(3), of txid oid]
    have "lookup (snd (addSiafundInput tx oid txid)) ''SiafundOutputs'' (KHash oid)
            = Some (VOutput (r\<lparr>InputTx := txid\<rparr>))"
      by simp
    from Cons.IH [OF dist run [unfolded True] this] show ?thesis
      by (simp add: op True none)
  next
    case False
    from addSiafundInput_None [OF ok] obtain rk
      where rk: "lookup tx ''SiafundOutputs'' (KHash k) = Some (VOutput rk)" by blast
    from addSiafundInput_spend [OF rk, of txid oid] False Cons.prems(3)
    have "lookup (snd (addSiafundInput tx k txid)) ''SiafundOutputs'' (KHash oid)
            = Some (VOutput r)"
      by simp
    from Cons.IH [OF dist run this] show ?thesis
      using False by (simp add: op)
  qed
qed

lemma proofs_run:
  "distinct (map fst ops) \<Longrightarrow> runOps addFcProof ops tx = (None, tx') \<Longrightarrow>
   lookup tx ''FileContracts'' (KHash c) = Some (VContract fi) \<Longrightarrow>
   lookup tx' ''FileContracts'' (KHash c) =
     Some (VContract (case map_of ops c of None \<Rightarrow> fi | Some txid \<Rightarrow> fi\<lparr>Proof := txid\<rparr>))"
proof (induction ops arbitrary: tx fi)
  case Nil
  then show ?case by simp
next
  case (Cons op rest)
  obtain k txid where op: "op = (k, txid)" by (cases op)
  have ok: "fst (addFcProof tx k txid) = None"
    and run: "runOps addFcProof rest (snd (addFcProof tx k txid)) = (None, tx')"
    using Cons.prems(2) unfolding op runOps_Cons_None by simp_all
  from Cons.prems(1) op have dist: "distinct (map fst rest)" and fresh: "k \<notin> fst ` set rest"
    by simp_all
  show ?case
  proof (cases "k = c")
    case True
    from fresh True have none: "map_of rest c = None"
      by (simp add: map_of_eq_None_iff)
    from addFcProof_spec [OF Cons.prems(3), of txid c]
    have "lookup (snd (addFcProof tx c txid)) ''FileContracts'' (KHash c)
            = Some (VContract (fi\<lparr>Proof := txid\<rparr>))"
      by simp
    from Cons.IH [OF dist run [unfolded True] this] show ?thesis
      by (simp add: op True none)
  next
    case False
    from addFcProof_None [OF ok] obtain fk
      where fk: "lookup tx ''FileContracts'' (KHash k) = Some (VContract fk)" by blast
    from addFcProof_spec [OF fk, of txid c] False Cons.prems(3)
    have "lookup (snd (addFcProof tx k txid)) ''FileContracts'' (KHash c)
            = Some (VContract fi)"
      by simp
    from Cons.IH [OF dist run this] show ?thesis
      using False by (simp add: op)
  qed
qed

text \<open>
  Claim C6, as stated: the spending transaction id of an output record and the proof
  transaction id of a contract record never change once they are set, whatever the
  sequence of operations.

  The writers have no such guard: they overwrite.  The output 4, spent by 5 and then
  referenced again by an input of 6, has the spender 6; the contract 9, proved by 5 and
  then by 6, has the proof 6.
\<close>

theorem spender_and_proof_overwritten:
  "lookup (snd (addSiacoinInput store3 4 5)) ''SiacoinOutputs'' (KHash 4)
     = Some (VOutput \<lparr>OutputTx = 3, InputTx = 5\<rparr>) \<and>
   lookup (snd (addSiacoinInput (snd (addSiacoinInput store3 4 5)) 4 6)) ''SiacoinOutputs'' (KHash 4)
     = Some (VOutput \<lparr>OutputTx = 3, InputTx = 6\<rparr>) \<and>
   lookup (snd (addFcProof store3 9 5)) ''FileContracts'' (KHash 9)
     = Some (VContract \<lparr>Contract = 8, Revisions = [], Proof = 5\<rparr>) \<and>
   lookup (snd (addFcProof (snd (addFcProof store3 9 5)) 9 6)) ''FileContracts'' (KHash 9)
     = Some (VContract \<lparr>Contract = 8, Revisions = [], Proof = 6\<rparr>)"
  by (simp add: store3_def addSiacoinInput_def addFcProof_def getObject_def putObject_def
        lookup_def)

text \<open>
  Claim C6, amended: addSiacoinInput, addSiafundInput and addFcProof set the field of
  the record they reference and overwrite what was there.  Over a sequence \<open>ops\<close> of
  such calls (key, transaction id) that all return nil and in which no key occurs
  twice, the field of every record is set at most once: a record that no call
  references keeps its field, and a referenced record holds the transaction id of the
  one call that references it.  The creator, and the revisions of a contract, stay.
\<close>

theorem set_once_for_distinct_keys:
  assumes "distinct (map fst ops)"
  shows "(fst (runOps addSiacoinInput ops tx) = None \<and>
          lookup tx ''SiacoinOutputs'' (KHash k) = Some (VOutput r) \<longrightarrow>
          lookup (snd (runOps addSiacoinInput ops tx)) ''SiacoinOutputs'' (KHash k) =
            Some (VOutput (case map_of ops k of None \<Rightarrow> r
                           | Some txid \<Rightarrow> r\<lparr>InputTx := txid\<rparr>))) \<and>
         (fst (runOps addSiafundInput ops tx) = None \<and>
          lookup tx ''SiafundOutputs'' (KHash k) = Some (VOutput r) \<longrightarrow>
          lookup (snd (runOps addSiafundInput ops tx)) ''SiafundOutputs'' (KHash k) =
            Some (VOutput (case map_of ops k of None \<Rightarrow> r
                           | Some txid \<Rightarrow> r\<lparr>InputTx := txid\<rparr>))) \<and>
         (fst (runOps addFcProof ops tx) = None \<and>
          lookup tx ''FileContracts'' (KHash k) = Some (VContract fi) \<longrightarrow>
          lookup (snd (runOps addFcProof ops tx)) ''FileContracts'' (KHash k) =
            Some (VContract (case map_of ops k of None \<Rightarrow> fi
                             | Some txid \<Rightarrow> fi\<lparr>Proof := txid\<rparr>)))"
proof (intro conjI impI)
  assume "fst (runOps addSiacoinInput ops tx) = None \<and>
          lookup tx ''SiacoinOutputs'' (KHash k) = Some (VOutput r)"
  then have "runOps addSiacoinInput ops tx = (None, snd (runOps addSiacoinInput ops tx))"
    and "lookup tx ''SiacoinOutputs'' (KHash k) = Some (VOutput r)"
    by (simp_all add: prod_eq_iff)
  from spends_run [OF assms this]
  show "lookup (snd (runOps addSiacoinInput ops tx)) ''SiacoinOutputs'' (KHash k) =
          Some (VOutput (case map_of ops k of None \<Rightarrow> r
                         | Some txid \<Rightarrow> r\<lparr>InputTx := txid\<rparr>))" .
next
  assume "fst (runOps addSiafundInput ops tx) = None \<and>
          lookup tx ''SiafundOutputs'' (KHash k) = Some (VOutput r)"
  then have "runOps addSiafundInput ops tx = (None, snd (runOps addSiafundInput ops tx))"
    and "lookup tx ''SiafundOutputs'' (KHash k) = Some (VOutput r)"
    by (simp_all add: prod_eq_iff)
  from fund_spends_run [OF assms this]
  show "lookup (snd (runOps addSiafundInput ops tx)) ''SiafundOutputs'' (KHash k) =
          Some (VOutput (case map_of ops k of None \<Rightarrow> r
                         | Some txid \<Rightarrow> r\<lparr>InputTx := txid\<rparr>))" .
next
  assume "fst (runOps addFcProof ops tx) = None \<and>
          lookup tx ''FileContracts'' (KHash k) = Some (VContract fi)"
  then have "runOps addFcProof ops tx = (None, snd (runOps addFcProof ops tx))"
    and "lookup tx ''FileContracts'' (KHash k) = Some (VContract fi)"
    by (simp_all add: prod_eq_iff)
  from proofs_run [OF assms this]
  show "lookup (snd (runOps addFcProof ops tx)) ''FileContracts'' (KHash k) =
          Some (VContract (case map_of ops k of None \<Rightarrow> fi
                           | Some txid \<Rightarrow> fi\<lparr>Proof := txid\<rparr>))" .
qed

theorem set_once_for_distinct_keys_witness:
  "distinct (map fst [(4 :: Hash, 5 :: Hash), (10, 6)]) \<and>
   fst (runOps addSiacoinInput [(4, 5), (10, 6)] store3) = None \<and>
   lookup (snd (runOps addSiacoinInput [(4, 5), (10, 6)] store3)) ''SiacoinOutputs'' (KHash 4)
     = Some (VOutput \<lparr>OutputTx = 3, InputTx = 5\<rparr>) \<and>
   fst (runOps addSiafundInput [(4, 5)] store3) = None \<and>
   lookup (snd (runOps addSiafundInput [(4, 5)] store3)) ''SiafundOutputs'' (KHash 4)
     = Some (VOutput \<lparr>OutputTx = 3, InputTx = 5\<rparr>) \<and>
   fst (runOps addFcProof [(9, 7)] store3) = None \<and>
   lookup (snd (runOps addFcProof [(9, 7)] store3)) ''FileContracts'' (KHash 9)
     = Some (VContract \<lparr>Contract = 8, Revisions = [], Proof = 7\<rparr>)"
proof -
  have d2: "distinct (map fst [(4 :: Hash, 5 :: Hash), (10, 6)])" by simp
  have d1: "distinct (map fst [(4 :: Hash, 5 :: Hash)])" by simp
  have d0: "distinct (map fst [(9 :: Hash, 7 :: Hash)])" by simp
  have c: "fst (runOps addSiacoinInput [(4, 5), (10, 6)] store3) = None"
    by (simp add: store3_def addSiacoinInput_def getObject_def putObject_def)
  have f: "fst (runOps addSiafundInput [(4, 5)] store3) = None"
    by (simp add: store3_def addSiafundInput_def getObject_def putObject_def)
  have p: "fst (runOps addFcProof [(9, 7)] store3) = None"
    by (simp add: store3_def addFcProof_def getObject_def putObject_def)
  have lc: "lookup store3 ''SiacoinOutputs'' (KHash 4) = Some (VOutput \<lparr>OutputTx = 3, InputTx = 0\<rparr>)"
    and lf: "lookup store3 ''SiafundOutputs'' (KHash 4) = Some (VOutput \<lparr>OutputTx = 3, InputTx = 0\<rparr>)"
    and lp: "lookup store3 ''FileContracts'' (KHash 9)
               = Some (VContract \<lparr>Contract = 8, Revisions = [], Proof = 0\<rparr>)"
    by (simp_all add: store3_def lookup_def)
  from set_once_for_distinct_keys [OF d2, of store3 4 "\<lparr>OutputTx = 3, InputTx = 0\<rparr>"] c lc
  have 1: "lookup (snd (runOps addSiacoinInput [(4, 5), (10, 6)] store3)) ''SiacoinOutputs'' (KHash 4)
             = Some (VOutput \<lparr>OutputTx = 3, InputTx = 5\<rparr>)"
    by simp
  from set_once_for_distinct_keys [OF d1, of store3 4 "\<lparr>OutputTx = 3, InputTx = 0\<rparr>"] f lf
  have 2: "lookup (snd (runOps addSiafundInput [(4, 5)] store3)) ''SiafundOutputs'' (KHash 4)
             = Some (VOutput \<lparr>OutputTx = 3, InputTx = 5\<rparr>)"
    by simp
  from set_once_for_distinct_keys [OF d0, of store3 9 _ "\<lparr>Contract = 8, Revisions = [], Proof = 0\<rparr>"] p lp
  have 3: "lookup (snd (runOps addFcProof [(9, 7)] store3)) ''FileContracts'' (KHash 9)
             = Some (VContract \<lparr>Contract = 8, Revisions = [], Proof = 7\<rparr>)"
    by simp
  from d2 c f p 1 2 3 show ?thesis by blast
qed

section \<open>The zero hash as the empty field\<close>

lemma addSiacoinInput_same:
  "lookup tx ''SiacoinOutputs'' (KHash oid) = Some (VOutput r) \<Longrightarrow> InputTx r = txid \<Longrightarrow>
   addSiacoinInput tx oid txid = (None, tx)"
  by (auto simp: addSiacoinInput_def getObject_def putObject_def lookup_def map_upd_triv
           split: option.splits)

lemma addSiafundInput_same:
  "lookup tx ''SiafundOutputs'' (KHash oid) = Some (VOutput r) \<Longrightarrow> InputTx r = txid \<Longrightarrow>
   addSiafundInput tx oid txid = (None, tx)"
  by (auto simp: addSiafundInput_def getObject_def putObject_def lookup_def map_upd_triv
           split: option.splits)

lemma addFcProof_same:
  "lookup tx ''FileContracts'' (KHash c) = Some (VContract fi) \<Longrightarrow> Proof fi = txid \<Longrightarrow>
   addFcProof tx c txid = (None, tx)"
  by (auto simp: addFcProof_def getObject_def putObject_def lookup_def map_upd_triv
           split: option.splits)

lemma addNewOutput_lookup:
  "fst (addNewOutput tx oid T) = None \<Longrightarrow>
   lookup (snd (addNewOutput tx oid T)) ''SiacoinOutputs'' (KHash oid)
     = Some (VOutput \<lparr>OutputTx = T, InputTx = 0\<rparr>)"
  by (simp add: addNewOutput_def addNewHash_lookup)

lemma addNewSFOutput_lookup:
  "fst (addNewSFOutput tx oid T) = None \<Longrightarrow>
   lookup (snd (addNewSFOutput tx oid T)) ''SiafundOutputs'' (KHash oid)
     = Some (VOutput \<lparr>OutputTx = T, InputTx = 0\<rparr>)"
  by (simp add: addNewSFOutput_def addNewHash_lookup)

lemma andThen_NoneD:
  "fst (andThen r g) = None \<Longrightarrow> fst r = None \<and> andThen r g = g (snd r)"
  by (cases r; cases "fst r") auto

text \<open>One round of the contract loop leaves a fresh record under the contract id.\<close>

lemma addFileContracts_Cons:
  assumes "fst (addFileContracts P t txid i (c # rest) tx) = None"
  shows "\<exists>tx1. fst (addFileContracts P t txid (Suc i) rest tx1) = None \<and>
           addFileContracts P t txid i (c # rest) tx = addFileContracts P t txid (Suc i) rest tx1 \<and>
           (\<forall>k. lookup tx1 ''FileContracts'' (KHash k) =
              (if k = FileContractID P t i
               then Some (VContract \<lparr>Contract = txid, Revisions = [], Proof = 0\<rparr>)
               else lookup tx ''FileContracts'' (KHash k)))"
proof -
  let ?fcid = "FileContractID P t i"
  let ?r0 = "addNewHash tx ''FileContracts'' hashFilecontract ?fcid
               (VContract \<lparr>Contract = txid, Revisions = [], Proof = 0\<rparr>)"
  let ?r1 = "addOutputs (StorageProofOutputID P ?fcid True) txid 0 (fc_ValidProofOutputs c) (snd ?r0)"
  let ?r2 = "addOutputs (StorageProofOutputID P ?fcid False) txid 0 (fc_MissedProofOutputs c) (snd ?r1)"
  let ?r3 = "addAddress (snd ?r2) (fc_UnlockHash c) txid"
  from assms have a0: "fst (andThen ?r0 (\<lambda>tx.
      andThen (addOutputs (StorageProofOutputID P ?fcid True) txid 0 (fc_ValidProofOutputs c) tx) (\<lambda>tx.
      andThen (addOutputs (StorageProofOutputID P ?fcid False) txid 0 (fc_MissedProofOutputs c) tx) (\<lambda>tx.
      andThen (addAddress tx (fc_UnlockHash c) txid) (\<lambda>tx.
      addFileContracts P t txid (Suc i) rest tx))))) = None"
    by (simp add: Let_def)
  note s0 = andThen_NoneD [OF a0]
  from s0 have a1: "fst (andThen ?r1 (\<lambda>tx.
      andThen (addOutputs (StorageProofOutputID P ?fcid False) txid 0 (fc_MissedProofOutputs c) tx) (\<lambda>tx.
      andThen (addAddress tx (fc_UnlockHash c) txid) (\<lambda>tx.
      addFileContracts P t txid (Suc i) rest tx)))) = None"
    using a0 by simp
  note s1 = andThen_NoneD [OF a1]
  from s1 have a2: "fst (andThen ?r2 (\<lambda>tx.
      andThen (addAddress tx (fc_UnlockHash c) txid) (\<lambda>tx.
      addFileContracts P t txid (Suc i) rest tx))) = None"
    using a1 by simp
  note s2 = andThen_NoneD [OF a2]
  from s2 have a3: "fst (andThen ?r3 (\<lambda>tx. addFileContracts P t txid (Suc i) rest tx)) = None"
    using a2 by simp
  note s3 = andThen_NoneD [OF a3]
  have run: "addFileContracts P t txid i (c # rest) tx
               = addFileContracts P t txid (Suc i) rest (snd ?r3)"
    using s0 s1 s2 s3 by (simp add: Let_def)
  have ok: "fst (addFileContracts P t txid (Suc i) rest (snd ?r3)) = None"
    using assms run by simp
  have fc: "snd ?r3 ''FileContracts'' = snd ?r0 ''FileContracts''"
    by (simp add: addAddress_frame addOutputs_frame)
  have same: "\<And>k. lookup (snd ?r3) ''FileContracts'' k = lookup (snd ?r0) ''FileContracts'' k"
    by (rule lookup_frame) (rule fc)
  have "\<forall>k. lookup (snd ?r3) ''FileContracts'' (KHash k) =
              (if k = ?fcid
               then Some (VContract \<lparr>Contract = txid, Revisions = [], Proof = 0\<rparr>)
               else lookup tx ''FileContracts'' (KHash k))"
    using addNewHash_lookup [of tx "''FileContracts''" hashFilecontract ?fcid] s0
    by (simp add: same)
  with run ok show ?thesis by blast
qed

lemma addFileContracts_keeps_fresh:
  "fst (addFileContracts P t txid i cs tx) = None \<Longrightarrow>
   lookup tx ''FileContracts'' (KHash c)
     = Some (VContract \<lparr>Contract = txid, Revisions = [], Proof = 0\<rparr>) \<Longrightarrow>
   lookup (snd (addFileContracts P t txid i cs tx)) ''FileContracts'' (KHash c)
     = Some (VContract \<lparr>Contract = txid, Revisions = [], Proof = 0\<rparr>)"
proof (induction cs arbitrary: i tx)
  case Nil
  then show ?case by simp
next
  case (Cons x rest)
  from addFileContracts_Cons [OF Cons.prems(1)] obtain tx1
    where ok: "fst (addFileContracts P t txid (Suc i) rest tx1) = None"
      and run: "addFileContracts P t txid i (x # rest) tx
                  = addFileContracts P t txid (Suc i) rest tx1"
      and look: "\<forall>k. lookup tx1 ''FileContracts'' (KHash k) =
              (if k = FileContractID P t i
               then Some (VContract \<lparr>Contract = txid, Revisions = [], Proof = 0\<rparr>)
               else lookup tx ''FileContracts'' (KHash k))"
    by blast
  from look Cons.prems(2)
  have "lookup tx1 ''FileContracts'' (KHash c)
          = Some (VContract \<lparr>Contract = txid, Revisions = [], Proof = 0\<rparr>)"
    by simp
  from Cons.IH [OF ok this] show ?case
    by (simp only: run)
qed

lemma addFileContracts_fresh:
  "fst (addFileContracts P t txid i cs tx) = None \<Longrightarrow> j < length cs \<Longrightarrow>
   lookup (snd (addFileContracts P t txid i cs tx)) ''FileContracts''
       (KHash (FileContractID P t (i + j)))
     = Some (VContract \<lparr>Contract = txid, Revisions = [], Proof = 0\<rparr>)"
proof (induction cs arbitrary: i j tx)
  case Nil
  then show ?case by simp
next
  case (Cons x rest)
  from addFileContracts_Cons [OF Cons.prems(1)] obtain tx1
    where ok: "fst (addFileContracts P t txid (Suc i) rest tx1) = None"
      and run: "addFileContracts P t txid i (x # rest) tx
                  = addFileContracts P t txid (Suc i) rest tx1"
      and look: "\<forall>k. lookup tx1 ''FileContracts'' (KHash k) =
              (if k = FileContractID P t i
               then Some (VContract \<lparr>Contract = txid, Revisions = [], Proof = 0\<rparr>)
               else lookup tx ''FileContracts'' (KHash k))"
    by blast
  show ?case
  proof (cases j)
    case 0
    from look have "lookup tx1 ''FileContracts'' (KHash (FileContractID P t i))
          = Some (VContract \<lparr>Contract = txid, Revisions = [], Proof = 0\<rparr>)"
      by simp
    from addFileContracts_keeps_fresh [OF ok this] show ?thesis
      by (simp only: run 0 add_0_right)
  next
    case (Suc j')
    with Cons.prems(2) have "j' < length rest" by simp
    from Cons.IH [OF ok this] show ?thesis
      by (simp only: run Suc add_Suc_right add_Suc)
  qed
qed

text \<open>
  Claim C10: the empty field is the all-zero hash.  Every output record that
  addNewOutput or addNewSFOutput creates has the zero hash as its spender, and every
  contract record that the contract loop of addTransaction creates has the empty revision
  list and the zero hash as its proof.  Hence the store cannot tell an unspent output
  from one spent by the transaction id zero, nor an unproven contract from one proved by
  the transaction id zero: the spend (the proof) with the id zero returns nil and
  leaves the store as it is.
\<close>

theorem empty_is_zero_hash:
  "(fst (addNewOutput tx oid T) = None \<longrightarrow>
      lookup (snd (addNewOutput tx oid T)) ''SiacoinOutputs'' (KHash oid)
        = Some (VOutput \<lparr>OutputTx = T, InputTx = 0\<rparr>) \<and>
      addSiacoinInput (snd (addNewOutput tx oid T)) oid 0 = (None, snd (addNewOutput tx oid T))) \<and>
   (fst (addNewSFOutput tx oid T) = None \<longrightarrow>
      lookup (snd (addNewSFOutput tx oid T)) ''SiafundOutputs'' (KHash oid)
        = Some (VOutput \<lparr>OutputTx = T, InputTx = 0\<rparr>) \<and>
      addSiafundInput (snd (addNewSFOutput tx oid T)) oid 0 = (None, snd (addNewSFOutput tx oid T))) \<and>
   (fst (addFileContracts P t txid i cs tx) = None \<and> j < length cs \<longrightarrow>
      lookup (snd (addFileContracts P t txid i cs tx)) ''FileContracts''
          (KHash (FileContractID P t (i + j)))
        = Some (VContract \<lparr>Contract = txid, Revisions = [], Proof = 0\<rparr>) \<and>
      addFcProof (snd (addFileContracts P t txid i cs tx)) (FileContractID P t (i + j)) 0
        = (None, snd (addFileContracts P t txid i cs tx)))"
proof (intro conjI impI)
  assume a: "fst (addNewOutput tx oid T) = None"
  from addNewOutput_lookup [OF a]
  show "lookup (snd (addNewOutput tx oid T)) ''SiacoinOutputs'' (KHash oid)
        = Some (VOutput \<lparr>OutputTx = T, InputTx = 0\<rparr>)" .
  from addSiacoinInput_same [OF addNewOutput_lookup [OF a]]
  show "addSiacoinInput (snd (addNewOutput tx oid T)) oid 0 = (None, snd (addNewOutput tx oid T))"
    by simp
next
  assume a: "fst (addNewSFOutput tx oid T) = None"
  from addNewSFOutput_lookup [OF a]
  show "lookup (snd (addNewSFOutput tx oid T)) ''SiafundOutputs'' (KHash oid)
        = Some (VOutput \<lparr>OutputTx = T, InputTx = 0\<rparr>)" .
  from addSiafundInput_same [OF addNewSFOutput_lookup [OF a]]
  show "addSiafundInput (snd (addNewSFOutput tx oid T)) oid 0 = (None, snd (addNewSFOutput tx oid T))"
    by simp
next
  assume "fst (addFileContracts P t txid i cs tx) = None \<and> j < length cs"
  then have a: "fst (addFileContracts P t txid i cs tx) = None" and b: "j < length cs"
    by simp_all
  from addFileContracts_fresh [OF a b]
  show "lookup (snd (addFileContracts P t txid i cs tx)) ''FileContracts''
          (KHash (FileContractID P t (i + j)))
        = Some (VContract \<lparr>Contract = txid, Revisions = [], Proof = 0\<rparr>)" .
  from addFcProof_same [OF addFileContracts_fresh [OF a b]]
  show "addFcProof (snd (addFileContracts P t txid i cs tx)) (FileContractID P t (i + j)) 0
        = (None, snd (addFileContracts P t txid i cs tx))"
    by simp
qed

theorem empty_is_zero_hash_witness:
  "fst (addNewOutput store4 4 3) = None \<and>
   lookup (snd (addNewOutput store4 4 3)) ''SiacoinOutputs'' (KHash 4)
     = Some (VOutput \<lparr>OutputTx = 3, InputTx = 0\<rparr>) \<and>
   addSiacoinInput (snd (addNewOutput store4 4 3)) 4 0 = (None, snd (addNewOutput store4 4 3)) \<and>
   fst (addNewSFOutput store4 7 3) = None \<and>
   lookup (snd (addNewSFOutput store4 7 3)) ''SiafundOutputs'' (KHash 7)
     = Some (VOutput \<lparr>OutputTx = 3, InputTx = 0\<rparr>) \<and>
   addSiafundInput (snd (addNewSFOutput store4 7 3)) 7 0 = (None, snd (addNewSFOutput store4 7 3)) \<and>
   fst (addFileContracts pkg0 txn0 3 0 [contract0] store4) = None \<and>
   lookup (snd (addFileContracts pkg0 txn0 3 0 [contract0] store4)) ''FileContracts'' (KHash 5)
     = Some (VContract \<lparr>Contract = 3, Revisions = [], Proof = 0\<rparr>) \<and>
   addFcProof (snd (addFileContracts pkg0 txn0 3 0 [contract0] store4)) 5 0
     = (None, snd (addFileContracts pkg0 txn0 3 0 [contract0] store4))"
proof -
  have c: "fst (addNewOutput store4 4 3) = None"
    by (simp add: store4_def addNewOutput_def addNewHash_def addHashType_def putObject_def)
  have f: "fst (addNewSFOutput store4 7 3) = None"
    by (simp add: store4_def addNewSFOutput_def addNewHash_def addHashType_def putObject_def)
  have k: "fst (addFileContracts pkg0 txn0 3 0 [contract0] store4) = None"
    by (simp add: store4_def contract0_def pkg0_def addNewOutput_def addNewHash_def
          addHashType_def addAddress_def getObject_def putObject_def)
  have id: "FileContractID pkg0 txn0 (0 + 0) = 5" by (simp add: pkg0_def)
  have len: "(0::nat) < length [contract0]" by simp
  from empty_is_zero_hash [of store4 4 3 pkg0 txn0 3 0 "[contract0]" 0]
       empty_is_zero_hash [of store4 7 3 pkg0 txn0 3 0 "[contract0]" 0] c f k len
  show ?thesis
    unfolding id by blast
qed

section \<open>The height summary\<close>

lemma addHeight_lookup:
  "fst (addHeight tx h bs) = None \<Longrightarrow>
   lookup (snd (addHeight tx h bs)) ''Heights'' (KHeight h) = Some (VSummary bs)"
  by (auto simp: addHeight_def putObject_def lookup_def split: option.splits)

lemma addBlockHead_height:
  assumes "fst (addBlockHead P be b blocktarget tx) = None"
  shows "lookup (snd (addBlockHead P be b blocktarget tx)) ''Heights''
           (KHeight (blockchainHeight be)) =
         Some (VSummary \<lparr>ebd_ID = BlockID P b, ebd_Timestamp = Timestamp b,
                 ebd_Target = blocktarget, ebd_Size = of_nat (MarshalLen P b)\<rparr>)"
proof -
  let ?bSum = "\<lparr>ebd_ID = BlockID P b, ebd_Timestamp = Timestamp b,
                 ebd_Target = blocktarget, ebd_Size = of_nat (MarshalLen P b)\<rparr>"
  let ?r0 = "addNewHash tx ''Blocks'' hashBlock (BlockID P b)
               (VBlock \<lparr>bd_Block = b, bd_Height = blockchainHeight be\<rparr>)"
  let ?r1 = "addHeight (snd ?r0) (blockchainHeight be) ?bSum"
  let ?r2 = "addHashType (snd ?r1) (BlockID P b) hashBlock"
  let ?r3 = "addOutputs (MinerPayoutID P b) (BlockID P b) 0 (MinerPayouts b) (snd ?r2)"
  from assms have a0: "fst (andThen ?r0 (\<lambda>tx.
      andThen (addHeight tx (blockchainHeight be) ?bSum) (\<lambda>tx.
      andThen (addHashType tx (BlockID P b) hashBlock) (\<lambda>tx.
      addOutputs (MinerPayoutID P b) (BlockID P b) 0 (MinerPayouts b) tx)))) = None"
    by (simp add: addBlockHead_def Let_def)
  note s0 = andThen_NoneD [OF a0]
  from s0 have a1: "fst (andThen ?r1 (\<lambda>tx.
      andThen (addHashType tx (BlockID P b) hashBlock) (\<lambda>tx.
      addOutputs (MinerPayoutID P b) (BlockID P b) 0 (MinerPayouts b) tx))) = None"
    using a0 by simp
  note s1 = andThen_NoneD [OF a1]
  from s1 have a2: "fst (andThen ?r2 (\<lambda>tx.
      addOutputs (MinerPayoutID P b) (BlockID P b) 0 (MinerPayouts b) tx)) = None"
    using a1 by simp
  note s2 = andThen_NoneD [OF a2]
  have run: "addBlockHead P be b blocktarget tx = ?r3"
    using s0 s1 s2 by (simp add: addBlockHead_def Let_def)
  have "snd ?r3 ''Heights'' = snd ?r1 ''Heights''"
    by (simp add: addOutputs_frame addHashType_frame)
  then have "lookup (snd ?r3) ''Heights'' (KHeight (blockchainHeight be))
               = lookup (snd ?r1) ''Heights'' (KHeight (blockchainHeight be))"
    by (rule lookup_frame)
  also have "\<dots> = Some (VSummary ?bSum)"
    using s1 by (simp add: addHeight_lookup)
  finally show ?thesis
    by (simp only: run)
qed

lemma addBlockTx_height:
  assumes "fst (addBlockTx P be b blocktarget tx) = None"
  shows "lookup (snd (addBlockTx P be b blocktarget tx)) ''Heights''
           (KHeight (blockchainHeight be)) =
         Some (VSummary \<lparr>ebd_ID = BlockID P b, ebd_Timestamp = Timestamp b,
                 ebd_Target = blocktarget, ebd_Size = of_nat (MarshalLen P b)\<rparr>)"
proof -
  let ?h = "addBlockHead P be b blocktarget tx"
  from assms have a: "fst (andThen ?h (\<lambda>tx. addTransactions P b 0 (Transactions b) tx)) = None"
    by (simp add: addBlockTx_def)
  note s = andThen_NoneD [OF a]
  have run: "addBlockTx P be b blocktarget tx = addTransactions P b 0 (Transactions b) (snd ?h)"
    using s by (simp add: addBlockTx_def)
  have "snd (addTransactions P b 0 (Transactions b) (snd ?h)) ''Heights'' = snd ?h ''Heights''"
    by (simp add: addTransactions_frame)
  then have "lookup (snd (addTransactions P b 0 (Transactions b) (snd ?h))) ''Heights''
                (KHeight (blockchainHeight be))
               = lookup (snd ?h) ''Heights'' (KHeight (blockchainHeight be))"
    by (rule lookup_frame)
  with addBlockHead_height [of P be b blocktarget tx] s show ?thesis
    by (simp only: run)
qed

lemma addBlockDB_run:
  "blockTarget P be b = Return blocktarget \<Longrightarrow> Begin (db be) = Inr tx0 \<Longrightarrow>
   addBlockDB P be b =
     Return (case fst (addBlockTx P be b blocktarget tx0) of
               Some err \<Rightarrow> (Some err, db be)
             | None \<Rightarrow> Commit (db be) (snd (addBlockTx P be b blocktarget tx0)))"
  by (simp add: addBlockDB_def Rollback_def split: prod.split option.split)

lemma addBlockDB_committed:
  assumes "addBlockDB P be b = Return (None, d)"
  shows "\<exists>blocktarget tx0. blockTarget P be b = Return blocktarget \<and>
           Begin (db be) = Inr tx0 \<and>
           fst (addBlockTx P be b blocktarget tx0) = None \<and>
           buckets d = snd (addBlockTx P be b blocktarget tx0)"
  using assms
  by (auto simp: addBlockDB_def Rollback_def Commit_def
           split: exit.splits sum.splits prod.splits option.splits)

text \<open>
  Claim C8: when the block is the genesis block, its height summary records the root
  target, and the child-target lookup of the consensus set is not consulted, so the
  recorded target does not depend on what that lookup would answer.

  For a block whose id is \<open>genesisBlockID\<close> the target is \<open>RootDepth\<close> and there is no
  panic; replacing the lookup by any other function \<open>f\<close> changes nothing in the result of
  addBlockDB; and whenever addBlockDB commits, the bucket Heights holds under the
  height of the explorer the summary of the block with the target \<open>RootDepth\<close>.
\<close>

theorem genesis_records_root_target:
  assumes gen: "BlockID P b = genesisBlockID be"
  shows "blockTarget P be b = Return RootDepth \<and>
         addBlockDB P (be\<lparr>cs_ChildTarget := f\<rparr>) b = addBlockDB P be b \<and>
         (\<forall>d. addBlockDB P be b = Return (None, d) \<longrightarrow>
            lookup (buckets d) ''Heights'' (KHeight (blockchainHeight be)) =
              Some (VSummary \<lparr>ebd_ID = BlockID P b, ebd_Timestamp = Timestamp b,
                      ebd_Target = RootDepth, ebd_Size = of_nat (MarshalLen P b)\<rparr>))"
proof (intro conjI allI impI)
  show t: "blockTarget P be b = Return RootDepth"
    using gen by (simp add: blockTarget_def)
  have same: "\<And>blocktarget tx. addBlockTx P (be\<lparr>cs_ChildTarget := f\<rparr>) b blocktarget tx
                 = addBlockTx P be b blocktarget tx"
    by (simp add: addBlockTx_def addBlockHead_def)
  show "addBlockDB P (be\<lparr>cs_ChildTarget := f\<rparr>) b = addBlockDB P be b"
    using gen by (simp add: addBlockDB_def blockTarget_def same split: sum.split prod.split option.split)
  fix d
  assume "addBlockDB P be b = Return (None, d)"
  from addBlockDB_committed [OF this] t obtain tx0
    where ok: "fst (addBlockTx P be b RootDepth tx0) = None"
      and d: "buckets d = snd (addBlockTx P be b RootDepth tx0)"
    by auto
  from addBlockTx_height [OF ok]
  show "lookup (buckets d) ''Heights'' (KHeight (blockchainHeight be)) =
          Some (VSummary \<lparr>ebd_ID = BlockID P b, ebd_Timestamp = Timestamp b,
                  ebd_Target = RootDepth, ebd_Size = of_nat (MarshalLen P b)\<rparr>)"
    by (simp only: d)
qed

theorem genesis_records_root_target_witness:
  "BlockID pkg0 block1 = genesisBlockID be2 \<and>
   blockTarget pkg0 be2 block1 = Return RootDepth \<and>
   addBlockDB pkg0 (be2\<lparr>cs_ChildTarget := (\<lambda>h. (5, True))\<rparr>) block1 = addBlockDB pkg0 be2 block1 \<and>
   (case addBlockDB pkg0 be2 block1 of
      Return (err, d) \<Rightarrow>
        err = None \<and>
        lookup (buckets d) ''Heights'' (KHeight 0) =
          Some (VSummary \<lparr>ebd_ID = 1, ebd_Timestamp = 77, ebd_Target = RootDepth,
                  ebd_Size = 100\<rparr>)
    | Panic msg \<Rightarrow> False)"
proof -
  have gen: "BlockID pkg0 block1 = genesisBlockID be2"
    by (simp add: pkg0_def be2_def)
  have "\<exists>d. addBlockDB pkg0 be2 block1 = Return (None, d)"
    by (simp add: model_defs pkg0_def be2_def block1_def store4_def)
  then obtain d where run: "addBlockDB pkg0 be2 block1 = Return (None, d)" ..
  from genesis_records_root_target [OF gen, of "\<lambda>h. (5, True)"] run
  have "blockTarget pkg0 be2 block1 = Return RootDepth"
    and "addBlockDB pkg0 (be2\<lparr>cs_ChildTarget := (\<lambda>h. (5, True))\<rparr>) block1
           = addBlockDB pkg0 be2 block1"
    and "lookup (buckets d) ''Heights'' (KHeight (blockchainHeight be2)) =
          Some (VSummary \<lparr>ebd_ID = BlockID pkg0 block1, ebd_Timestamp = Timestamp block1,
                  ebd_Target = RootDepth, ebd_Size = of_nat (MarshalLen pkg0 block1)\<rparr>)"
    by blast+
  with gen run show ?thesis
    by (simp add: pkg0_def be2_def block1_def)
qed

section \<open>Inputs without a record\<close>

lemma addSiacoinInput_missing:
  "tx ''SiacoinOutputs'' \<noteq> None \<Longrightarrow> lookup tx ''SiacoinOutputs'' (KHash oid) = None \<Longrightarrow>
   addSiacoinInput tx oid txid = (Some ErrNilEntry, tx)"
  by (auto simp: addSiacoinInput_def getObject_def lookup_def split: option.splits)

lemma addSiafundInput_missing:
  "tx ''SiafundOutputs'' \<noteq> None \<Longrightarrow> lookup tx ''SiafundOutputs'' (KHash oid) = None \<Longrightarrow>
   addSiafundInput tx oid txid = (Some ErrNilEntry, tx)"
  by (auto simp: addSiafundInput_def getObject_def lookup_def split: option.splits)

lemma missingInput_frame:
  "tx' name = tx name \<Longrightarrow> missingInput tx' name ids = missingInput tx name ids"
  by (induction ids) (auto simp: lookup_def split: option.splits)

text \<open>A spend rewrites one record that was there and decoded; it stays so.\<close>

lemma missingInput_spend:
  assumes "lookup tx name (KHash oid) = Some (VOutput r)"
    and "\<And>k. lookup tx' name (KHash k) =
           (if k = oid then Some (VOutput r') else lookup tx name (KHash k))"
    and "tx' name \<noteq> None"
  shows "missingInput tx name ids \<Longrightarrow> missingInput tx' name ids"
proof (induction ids)
  case Nil
  then show ?case by simp
next
  case (Cons i rest)
  then show ?case
    using assms by (cases "i = oid") (auto split: option.splits)
qed

lemma asOutput_Some: "asOutput v \<noteq> None \<Longrightarrow> \<exists>r. v = VOutput r"
  by (cases v) simp_all

lemma addSiacoinInputs_missing:
  "missingInput tx ''SiacoinOutputs'' (map sci_ParentID ins) \<Longrightarrow>
   fst (addSiacoinInputs txid ins tx) = Some ErrNilEntry"
proof (induction ins arbitrary: tx)
  case Nil
  then show ?case by simp
next
  case (Cons inp rest)
  let ?oid = "sci_ParentID inp"
  show ?case
  proof (cases "lookup tx ''SiacoinOutputs'' (KHash ?oid)")
    case None
    with Cons.prems have "tx ''SiacoinOutputs'' \<noteq> None" by simp
    from addSiacoinInput_missing [OF this None] show ?thesis by simp
  next
    case (Some v)
    with Cons.prems have dec: "asOutput v \<noteq> None"
      and more: "missingInput tx ''SiacoinOutputs'' (map sci_ParentID rest)"
      by simp_all
    from asOutput_Some [OF dec] Some obtain r
      where rec: "lookup tx ''SiacoinOutputs'' (KHash ?oid) = Some (VOutput r)" by blast
    let ?tx1 = "snd (addSiacoinInput tx ?oid txid)"
    note sp = addSiacoinInput_spend [OF rec, of txid]
    have ok: "addSiacoinInput tx ?oid txid = (None, ?tx1)"
      using sp by (simp add: prod_eq_iff)
    have "?tx1 ''SiacoinOutputs'' \<noteq> None"
      using sp [of ?oid] by (auto simp: lookup_def split: option.splits)
    with missingInput_spend [OF rec, of ?tx1 "r\<lparr>InputTx := txid\<rparr>"] sp more
    have "missingInput ?tx1 ''SiacoinOutputs'' (map sci_ParentID rest)" by simp
    from Cons.IH [OF this] show ?thesis
      by (subst addSiacoinInputs.simps, subst ok) simp
  qed
qed

lemma addSiafundInputs_missing:
  "missingInput tx ''SiafundOutputs'' (map sfi_ParentID ins) \<Longrightarrow>
   fst (addSiafundInputs txid ins tx) = Some ErrNilEntry"
proof (induction ins arbitrary: tx)
  case Nil
  then show ?case by simp
next
  case (Cons inp rest)
  let ?oid = "sfi_ParentID inp"
  show ?case
  proof (cases "lookup tx ''SiafundOutputs'' (KHash ?oid)")
    case None
    with Cons.prems have "tx ''SiafundOutputs'' \<noteq> None" by simp
    from addSiafundInput_missing [OF this None] show ?thesis by simp
  next
    case (Some v)
    with Cons.prems have dec: "asOutput v \<noteq> None"
      and more: "missingInput tx ''SiafundOutputs'' (map sfi_ParentID rest)"
      by simp_all
    from asOutput_Some [OF dec] Some obtain r
      where rec: "lookup tx ''SiafundOutputs'' (KHash ?oid) = Some (VOutput r)" by blast
    let ?tx1 = "snd (addSiafundInput tx ?oid txid)"
    note sp = addSiafundInput_spend [OF rec, of txid]
    have ok: "addSiafundInput tx ?oid txid = (None, ?tx1)"
      using sp by (simp add: prod_eq_iff)
    have "?tx1 ''SiafundOutputs'' \<noteq> None"
      using sp [of ?oid] by (auto simp: lookup_def split: option.splits)
    with missingInput_spend [OF rec, of ?tx1 "r\<lparr>InputTx := txid\<rparr>"] sp more
    have "missingInput ?tx1 ''SiafundOutputs'' (map sfi_ParentID rest)" by simp
    from Cons.IH [OF this] show ?thesis
      by (subst addSiafundInputs.simps, subst ok) simp
  qed
qed

lemma addTransaction_missing_coin:
  assumes "missingInput s ''SiacoinOutputs'' (map sci_ParentID (SiacoinInputs t))"
  shows "fst (addTransaction P s t) = Some ErrNilEntry"
proof -
  from addSiacoinInputs_missing [OF assms]
  have "fst (addTransactionCoin P s t) = Some ErrNilEntry"
    by (simp add: addTransactionCoin_def Let_def fst_andThen)
  then show ?thesis
    by (simp add: addTransaction_def Let_def fst_andThen)
qed

lemma addTransaction_missing_fund:
  assumes coin: "fst (addTransactionCoin P s t) = None"
    and miss: "missingInput s ''SiafundOutputs'' (map sfi_ParentID (SiafundInputs t))"
  shows "fst (addTransaction P s t) = Some ErrNilEntry"
proof -
  have "snd (addTransactionCoin P s t) ''SiafundOutputs'' = s ''SiafundOutputs''"
    by (simp add: addTransactionCoin_frame)
  with missingInput_frame [of "snd (addTransactionCoin P s t)" "''SiafundOutputs''" s] miss
  have "missingInput (snd (addTransactionCoin P s t)) ''SiafundOutputs''
          (map sfi_ParentID (SiafundInputs t))"
    by simp
  from addSiafundInputs_missing [OF this] coin show ?thesis
    by (simp add: addTransaction_def Let_def fst_andThen)
qed

section \<open>The transaction loop\<close>

lemma andThen_run: "fst r = None \<Longrightarrow> andThen r g = g (snd r)"
  by (cases r) simp

lemma addTransactions_append:
  "addTransactions P b i (pre @ rest) tx =
   andThen (addTransactions P b i pre tx) (\<lambda>tx. addTransactions P b (i + length pre) rest tx)"
proof (induction pre arbitrary: i tx)
  case Nil
  then show ?case by simp
next
  case (Cons txn pre)
  have "\<And>j. addTransactions P b j (pre @ rest) =
          (\<lambda>tx. andThen (addTransactions P b j pre tx)
                  (\<lambda>tx. addTransactions P b (j + length pre) rest tx))"
    by (rule ext) (rule Cons.IH)
  then show ?case
    by (simp add: andThen_assoc)
qed

text \<open>
  Claim C5: a transaction whose coin or fund input references an output id without a
  record fails on that input with \<open>ErrNilEntry\<close> (entry does not exist), the error comes
  out of addTransaction, and the block commits nothing.

  Let \<open>s\<close> be the open transaction when addBlockDB calls addTransaction on the
  transaction \<open>t\<close> of the block: the head of the block and the transactions \<open>pre\<close>
  before \<open>t\<close> have been indexed and \<open>t\<close> has been registered.  If the coin inputs of \<open>t\<close>
  meet a missing record in \<open>s\<close>, or the coin side of \<open>t\<close> succeeds and its fund inputs
  meet a missing record, then addTransaction returns \<open>ErrNilEntry\<close>, and addBlockDB
  returns \<open>ErrNilEntry\<close> with the database as it was.
\<close>

theorem missing_output_aborts_block:
  assumes target: "blockTarget P be b = Return blocktarget"
    and started: "Begin (db be) = Inr tx0"
    and txs: "Transactions b = pre @ t # post"
    and reach: "andThen (addBlockHead P be b blocktarget tx0)
                  (\<lambda>tx. addTransactions P b 0 pre tx) = (None, s1)"
    and reg: "addNewHash s1 ''Transactions'' hashTransaction (TransactionID P t)
                (VTxInfo \<lparr>ti_BlockID = BlockID P b, ti_TxNum = int (length pre)\<rparr>) = (None, s)"
    and missing: "missingInput s ''SiacoinOutputs'' (map sci_ParentID (SiacoinInputs t)) \<or>
                  (fst (addTransactionCoin P s t) = None \<and>
                   missingInput s ''SiafundOutputs'' (map sfi_ParentID (SiafundInputs t)))"
  shows "fst (addTransaction P s t) = Some ErrNilEntry \<and>
         addBlockDB P be b = Return (Some ErrNilEntry, db be)"
proof -
  from missing have err: "fst (addTransaction P s t) = Some ErrNilEntry"
    using addTransaction_missing_coin addTransaction_missing_fund by blast
  have "addBlockTx P be b blocktarget tx0 =
          andThen (andThen (addBlockHead P be b blocktarget tx0)
                     (\<lambda>tx. addTransactions P b 0 pre tx))
            (\<lambda>tx. addTransactions P b (length pre) (t # post) tx)"
    by (simp add: addBlockTx_def txs addTransactions_append andThen_assoc)
  also have "\<dots> = addTransactions P b (length pre) (t # post) s1"
    by (simp add: reach)
  also have "\<dots> = andThen (addTransaction P s t)
                      (\<lambda>tx. addTransactions P b (Suc (length pre)) post tx)"
    by (simp add: reg)
  finally have "fst (addBlockTx P be b blocktarget tx0) = Some ErrNilEntry"
    using err by (simp add: fst_andThen)
  with addBlockDB_run [OF target started] err show ?thesis
    by simp
qed

theorem missing_output_aborts_block_witness:
  "missingInput state2 ''SiacoinOutputs'' (map sci_ParentID (SiacoinInputs txn1)) \<and>
   fst (addTransaction pkg0 state2 txn1) = Some ErrNilEntry \<and>
   addBlockDB pkg0 be2 block2 = Return (Some ErrNilEntry, db be2) \<and>
   fst (addTransactionCoin pkg0 state3 txn2) = None \<and>
   missingInput state3 ''SiafundOutputs'' (map sfi_ParentID (SiafundInputs txn2)) \<and>
   fst (addTransaction pkg0 state3 txn2) = Some ErrNilEntry \<and>
   addBlockDB pkg0 be2 block3 = Return (Some ErrNilEntry, db be2)"
proof -
  have target2: "blockTarget pkg0 be2 block2 = Return RootDepth"
    and target3: "blockTarget pkg0 be2 block3 = Return RootDepth"
    by (simp_all add: blockTarget_def pkg0_def be2_def)
  have started: "Begin (db be2) = Inr store4"
    by (simp add: Begin_def be2_def)
  have txs2: "Transactions block2 = [] @ txn1 # []"
    and txs3: "Transactions block3 = [] @ txn2 # []"
    by (simp_all add: block2_def block3_def)
  have head2: "fst (addBlockHead pkg0 be2 block2 RootDepth store4) = None"
    and head3: "fst (addBlockHead pkg0 be2 block3 RootDepth store4) = None"
    by (simp_all add: model_defs pkg0_def be2_def block2_def block3_def store4_def)
  have reach2: "andThen (addBlockHead pkg0 be2 block2 RootDepth store4)
                  (\<lambda>tx. addTransactions pkg0 block2 0 [] tx)
                = (None, snd (addBlockHead pkg0 be2 block2 RootDepth store4))"
    and reach3: "andThen (addBlockHead pkg0 be2 block3 RootDepth store4)
                  (\<lambda>tx. addTransactions pkg0 block3 0 [] tx)
                = (None, snd (addBlockHead pkg0 be2 block3 RootDepth store4))"
    using head2 head3 by (simp_all add: andThen_run)
  have reg2: "addNewHash (snd (addBlockHead pkg0 be2 block2 RootDepth store4))
                ''Transactions'' hashTransaction (TransactionID pkg0 txn1)
                (VTxInfo \<lparr>ti_BlockID = BlockID pkg0 block2, ti_TxNum = int (length [])\<rparr>)
              = (None, state2)"
    and reg3: "addNewHash (snd (addBlockHead pkg0 be2 block3 RootDepth store4))
                ''Transactions'' hashTransaction (TransactionID pkg0 txn2)
                (VTxInfo \<lparr>ti_BlockID = BlockID pkg0 block3, ti_TxNum = int (length [])\<rparr>)
              = (None, state3)"
    by (simp_all add: state2_def state3_def model_defs pkg0_def be2_def block2_def block3_def
          store4_def)
  have miss2: "missingInput state2 ''SiacoinOutputs'' (map sci_ParentID (SiacoinInputs txn1))"
    by (simp add: state2_def txn1_def model_defs pkg0_def be2_def block2_def store4_def)
  have coin3: "fst (addTransactionCoin pkg0 state3 txn2) = None"
    by (simp add: state3_def txn2_def model_defs pkg0_def be2_def block3_def store4_def)
  have miss3: "missingInput state3 ''SiafundOutputs'' (map sfi_ParentID (SiafundInputs txn2))"
    by (simp add: state3_def txn2_def model_defs pkg0_def be2_def block3_def store4_def)
  from missing_output_aborts_block [OF target2 started txs2 reach2 reg2] miss2
  have r2: "fst (addTransaction pkg0 state2 txn1) = Some ErrNilEntry \<and>
            addBlockDB pkg0 be2 block2 = Return (Some ErrNilEntry, db be2)"
    by blast
  from missing_output_aborts_block [OF target3 started txs3 reach3 reg3] coin3 miss3
  have r3: "fst (addTransaction pkg0 state3 txn2) = Some ErrNilEntry \<and>
            addBlockDB pkg0 be2 block3 = Return (Some ErrNilEntry, db be2)"
    by blast
  from miss2 r2 coin3 miss3 r3 show ?thesis by blast
qed

end
